theory Spec2Isabelle
  imports Main
begin

section \<open>JavaScript values\<close>

text \<open>
  A JavaScript string is a sequence of UTF-16 code units; it is modelled as the list of
  their numbers, so that the Chinese command words and messages of the services are plain
  lists of numerals. \<open>js\<close> embeds an ASCII literal.
\<close>

type_synonym jsstring = "nat list"

definition js :: "string \<Rightarrow> jsstring" where
  "js s = map of_char s"

text \<open>
  The errors the services throw or meet. \<open>Error\<close> and \<open>ValidationError\<close> carry their
  message; \<open>TypeError\<close> is what a property read on \<open>undefined\<close> or the call of a
  non-function raises, \<open>SyntaxError\<close> what \<open>JSON.parse\<close> raises on an unparsable file.
\<close>

datatype js_error =
    Error jsstring
  | ValidationError jsstring
  | TypeError
  | SyntaxError

section \<open>Weather service: the forecast and its "tomorrow" entry\<close>

text \<open>
  The forecast object returned by the weather API, with the fields the services read.
  A field that may be absent from the JSON is an \<open>option\<close>. The entries of \<open>daily\<close>
  are of any type \<open>'d\<close> here; the message formatter fixes it to a record.
\<close>

record 'd weather_data =
  daily :: "'d list option"
  location :: "jsstring option"
  locationName :: "jsstring option"

definition msg_no_tomorrow :: jsstring where
  "msg_no_tomorrow =
     [0x65E0, 0x6CD5, 0x83B7, 0x53D6, 0x660E, 0x5929, 0x7684, 0x5929, 0x6C14, 0x6570, 0x636E]"

text \<open>
  \<^verbatim>\<open>getTomorrowWeather(weatherData)\<close>: throws when the forecast is null, has no
  \<open>daily\<close>, or \<open>daily\<close> has fewer than two entries; otherwise returns \<open>daily[1]\<close>.
\<close>

definition getTomorrowWeather :: "'d weather_data option \<Rightarrow> js_error + 'd" where
  "getTomorrowWeather weatherData =
     (case weatherData of
        None \<Rightarrow> Inl (Error msg_no_tomorrow)
      | Some w \<Rightarrow>
          (case daily w of
             None \<Rightarrow> Inl (Error msg_no_tomorrow)
           | Some ds \<Rightarrow>
               if length ds < 2 then Inl (Error msg_no_tomorrow)
               else Inr (ds ! 1)))"

section \<open>Location directory (config/locations.js)\<close>

text \<open>
  The directory file parses to an object \<open>city \<rightarrow> district \<rightarrow> {code, name}\<close>. An object is
  modelled by its own properties in enumeration order; \<open>for (key in obj)\<close> runs over
  \<open>map fst\<close>. The parameter \<open>locations\<close> of the functions below is what
  \<^verbatim>\<open>getAllLocations()\<close> returns (the empty object when the file is missing or
  unparsable). \<open>None\<close> stands for \<open>undefined\<close>.
\<close>

record entry =
  entry_code :: "jsstring option"
  entry_name :: "jsstring option"

type_synonym directory = "(jsstring \<times> (jsstring \<times> entry) list) list"

record location_info =
  city :: jsstring
  district :: jsstring
  code :: "jsstring option"
  name :: "jsstring option"

text \<open>
  \<open>locations[cityName][districtName]\<close> for keys delivered by the two \<open>for ... in\<close> loops,
  which are own properties.
\<close>

definition own_entry :: "directory \<Rightarrow> jsstring \<Rightarrow> jsstring \<Rightarrow> entry option" where
  "own_entry locations cityName districtName =
     (case map_of locations cityName of
        None \<Rightarrow> None
      | Some districts \<Rightarrow> map_of districts districtName)"

text \<open>\<open>locations[cityName][districtName].code === locationCode\<close>\<close>

definition code_matches :: "directory \<Rightarrow> jsstring option \<Rightarrow> jsstring \<Rightarrow> jsstring \<Rightarrow> bool" where
  "code_matches locations locationCode cityName districtName =
     (case own_entry locations cityName districtName of
        None \<Rightarrow> False
      | Some e \<Rightarrow> entry_code e = locationCode)"

text \<open>\<open>for (const districtName in locations[cityName])\<close>, stopping at the first match.\<close>

fun scan_districts :: "directory \<Rightarrow> jsstring option \<Rightarrow> jsstring \<Rightarrow> jsstring list \<Rightarrow> jsstring option" where
  "scan_districts locations locationCode cityName [] = None"
| "scan_districts locations locationCode cityName (districtName # rest) =
     (if code_matches locations locationCode cityName districtName then Some districtName
      else scan_districts locations locationCode cityName rest)"

definition district_keys :: "directory \<Rightarrow> jsstring \<Rightarrow> jsstring list" where
  "district_keys locations cityName =
     (case map_of locations cityName of None \<Rightarrow> [] | Some districts \<Rightarrow> map fst districts)"

text \<open>\<open>for (const cityName in locations)\<close> around the district loop.\<close>

fun scan_cities :: "directory \<Rightarrow> jsstring option \<Rightarrow> jsstring list \<Rightarrow> (jsstring \<times> jsstring) option" where
  "scan_cities locations locationCode [] = None"
| "scan_cities locations locationCode (cityName # rest) =
     (case scan_districts locations locationCode cityName (district_keys locations cityName) of
        Some districtName \<Rightarrow> Some (cityName, districtName)
      | None \<Rightarrow> scan_cities locations locationCode rest)"

text \<open>
  \<^verbatim>\<open>isLocationValid\<close> has two behaviours, chosen by \<open>arguments.length\<close>. With one
  argument it looks for the code:
\<close>

definition isLocationValid1 :: "directory \<Rightarrow> jsstring option \<Rightarrow> bool" where
  "isLocationValid1 locations locationCode =
     (scan_cities locations locationCode (map fst locations) \<noteq> None)"

definition getLocationInfo :: "directory \<Rightarrow> jsstring option \<Rightarrow> location_info option" where
  "getLocationInfo locations locationCode =
     (case scan_cities locations locationCode (map fst locations) of
        None \<Rightarrow> None
      | Some (cityName, districtName) \<Rightarrow>
          Some \<lparr>city = cityName, district = districtName, code = locationCode,
                name = (case own_entry locations cityName districtName of
                          None \<Rightarrow> None
                        | Some e \<Rightarrow> entry_name e)\<rparr>)"

text \<open>
  With two arguments, and in \<^verbatim>\<open>getLocationCode\<close> and \<^verbatim>\<open>getLocationName\<close>, the
  directory is read with keys chosen by the caller: \<open>locations[city][district]\<close>. Such a
  read goes on to the prototype chain when the object has no own property of that name.
  The objects of the directory are plain objects, so the chain ends at
  \<open>Object.prototype\<close>, whose members have the names below; every one of them is truthy
  when read off a plain object (eleven functions, and \<open>__proto__\<close>, which reads as
  \<open>Object.prototype\<close> itself).
\<close>

definition object_prototype_names :: "jsstring list" where
  "object_prototype_names =
     [js ''constructor'', js ''__defineGetter__'', js ''__defineSetter__'',
      js ''hasOwnProperty'', js ''__lookupGetter__'', js ''__lookupSetter__'',
      js ''isPrototypeOf'', js ''propertyIsEnumerable'', js ''toString'', js ''valueOf'',
      js ''__proto__'', js ''toLocaleString'']"

text \<open>
  What the reads of the directory need to know of a value: that reading it throws, that
  it is falsy, or that it is truthy, with what its properties \<open>code\<close> and \<open>name\<close> read.
  The properties of the members of \<open>Object.prototype\<close> belong to the JavaScript engine,
  not to this program; they are a parameter \<open>rt\<close> of the model:
  \<open>member_code rt k\<close> and \<open>member_name rt k\<close> are \<open>Object.prototype[k].code\<close> and
  \<open>Object.prototype[k].name\<close>, and \<open>member_prop rt k d\<close> is the value
  \<open>Object.prototype[k][d]\<close>. (In Node.js, \<open>Object.prototype["constructor"]["name"]\<close> is
  the string \<open>"Object"\<close>, a truthy value without \<open>code\<close> or \<open>name\<close>.)
\<close>

datatype builtin_read = Raises | Falsy | Truthy "jsstring option" "jsstring option"

record runtime =
  member_code :: "jsstring \<Rightarrow> jsstring option"
  member_name :: "jsstring \<Rightarrow> jsstring option"
  member_prop :: "jsstring \<Rightarrow> jsstring \<Rightarrow> builtin_read"

text \<open>\<open>locations[city][district]\<close>, guarded by \<open>locations[city] &&\<close> or \<open>?.\<close>\<close>

definition dir_read :: "runtime \<Rightarrow> directory \<Rightarrow> jsstring \<Rightarrow> jsstring \<Rightarrow> builtin_read" where
  "dir_read rt locations c d =
     (case map_of locations c of
        Some districts \<Rightarrow>
          (case map_of districts d of
             Some e \<Rightarrow> Truthy (entry_code e) (entry_name e)
           | None \<Rightarrow>
               if d \<in> set object_prototype_names
               then Truthy (member_code rt d) (member_name rt d)
               else Falsy)
      | None \<Rightarrow>
          if c \<in> set object_prototype_names then member_prop rt c d else Falsy)"

text \<open>
  \<open>locations[city] && locations[city][district]\<close>, of which the truthiness is kept, and
  \<open>locations[city]?.[district]?.code\<close>, \<open>locations[city]?.[district]?.name\<close>.
\<close>

definition isLocationValid2 :: "runtime \<Rightarrow> directory \<Rightarrow> jsstring \<Rightarrow> jsstring \<Rightarrow> js_error + bool" where
  "isLocationValid2 rt locations c d =
     (case dir_read rt locations c d of
        Raises \<Rightarrow> Inl TypeError
      | Falsy \<Rightarrow> Inr False
      | Truthy cd nm \<Rightarrow> Inr True)"

definition getLocationCode ::
  "runtime \<Rightarrow> directory \<Rightarrow> jsstring \<Rightarrow> jsstring \<Rightarrow> js_error + jsstring option" where
  "getLocationCode rt locations c d =
     (case dir_read rt locations c d of
        Raises \<Rightarrow> Inl TypeError
      | Falsy \<Rightarrow> Inr None
      | Truthy cd nm \<Rightarrow> Inr cd)"

definition getLocationName ::
  "runtime \<Rightarrow> directory \<Rightarrow> jsstring \<Rightarrow> jsstring \<Rightarrow> js_error + jsstring option" where
  "getLocationName rt locations c d =
     (case dir_read rt locations c d of
        Raises \<Rightarrow> Inl TypeError
      | Falsy \<Rightarrow> Inr None
      | Truthy cd nm \<Rightarrow> Inr nm)"

text \<open>
  An engine for the examples, in which a member of \<open>Object.prototype\<close> has the property
  \<open>name\<close>, a string, and nothing else.
\<close>

definition names_only :: runtime where
  "names_only =
     \<lparr>member_code = (\<lambda>k. None),
      member_name = (\<lambda>k. if k = js ''__proto__'' then None
                          else if k = js ''constructor'' then Some (js ''Object'')
                          else Some k),
      member_prop = (\<lambda>k d. if d = js ''name'' \<and> k \<noteq> js ''__proto__''
                            then Truthy None None else Falsy)\<rparr>"

section \<open>Error handling wrapper (services/errorHandler)\<close>

text \<open>
  \<^verbatim>\<open>withErrorHandling(fn, true)\<close> wraps \<open>fn\<close> in an async function that turns a thrown
  error into the returned object \<open>{error: handleError(error)}\<close>, and \<open>handleError\<close>
  returns the error itself. The wrapped function therefore always returns a promise,
  which resolves to the value of \<open>fn\<close> or to the error object; \<open>'a handled\<close> is that
  resolved value. \<open>fn\<close> runs synchronously inside the wrapper, so its effects on the file
  have happened when the wrapper returns.
\<close>

datatype 'a handled = Value 'a | ErrorObject js_error

definition withErrorHandling :: "js_error + 'a \<Rightarrow> 'a handled" where
  "withErrorHandling r = (case r of Inl e \<Rightarrow> ErrorObject e | Inr v \<Rightarrow> Value v)"

section \<open>Preference store (services/userPreferenceService)\<close>

text \<open>
  The preference file holds \<open>{users: {uid: {location, pushTime}}}\<close>. The file may be
  missing, or hold text that \<open>JSON.parse\<close> rejects, or a document; a document may lack
  \<open>users\<close> (as does any JSON value that is not such an object), a user may lack either
  field. A stored \<open>pushTime\<close> is a string or some other JSON value, of which only the
  truthiness is kept. File system calls themselves are taken to succeed.
\<close>

datatype stored = Str jsstring | NonStr bool

fun truthy :: "stored option \<Rightarrow> bool" where
  "truthy None = False"
| "truthy (Some (Str s)) = (s \<noteq> [])"
| "truthy (Some (NonStr b)) = b"

record user_pref =
  user_location :: "location_info option"
  pushTime :: "stored option"

record pref_doc =
  users :: "(jsstring \<rightharpoonup> user_pref) option"

datatype pref_file = Missing | Unparsable | Doc pref_doc

text \<open>
  The services find a user with \<open>data.users[uid]\<close>, a property read on the plain object
  \<open>data.users\<close>. For a uid that is no own property of it, but is the name of a member of
  \<open>Object.prototype\<close>, the read finds that member: a truthy object that lives in the
  process, not in the parsed document. An assignment
  \<open>data.users[uid].pushTime = ...\<close> then sets a property on the member, where later
  reads in the same process find it, and \<open>JSON.stringify(data)\<close>, which writes own
  properties only, leaves it out of the file.

  So the state of the store is the file together with the properties \<open>location\<close> and
  \<open>pushTime\<close> that the members of \<open>Object.prototype\<close> carry: \<open>leaked w k\<close> for the
  member named \<open>k\<close> (it is read at the names of \<open>object_prototype_names\<close> only). The
  member \<open>__proto__\<close> is \<open>Object.prototype\<close> itself, from which the user records and the
  other members inherit: a \<open>location\<close> or \<open>pushTime\<close> set on it is read on every one of
  them that has no such property of its own.

  The model follows these properties where the program reads \<open>location\<close> and \<open>pushTime\<close>
  of \<open>data.users[uid]\<close>, and no further. A process that has set such a property on
  \<open>Object.prototype\<close> itself (which takes the uid \<open>__proto__\<close>) would meet it again as
  the value of \<open>data.users["location"]\<close>, as one more key of every \<open>for ... in\<close>, and in
  the lookups of the directory; the enumerations and lookups of this model are those of
  a process whose \<open>Object.prototype\<close> has its twelve members only, each read as the
  engine provides it. In a document, a \<open>location\<close> that is \<open>null\<close> is read like a missing
  one.
\<close>

record world =
  disk :: pref_file
  leaked :: "jsstring \<Rightarrow> user_pref"

definition no_props :: user_pref where
  "no_props = \<lparr>user_location = None, pushTime = None\<rparr>"

text \<open>A process that has set no property on a member of \<open>Object.prototype\<close>.\<close>

definition pristine :: "pref_file \<Rightarrow> world" where
  "pristine f = \<lparr>disk = f, leaked = (\<lambda>k. no_props)\<rparr>"

definition no_leak :: "world \<Rightarrow> bool" where
  "no_leak w = list_all (\<lambda>k. leaked w k = no_props) object_prototype_names"

text \<open>\<open>data.users[uid]\<close>: an own record, a member of \<open>Object.prototype\<close>, or undefined.\<close>

datatype user_ref = NoUser | OwnRecord user_pref | Member jsstring

definition users_get :: "(jsstring \<rightharpoonup> user_pref) \<Rightarrow> jsstring \<Rightarrow> user_ref" where
  "users_get us uid =
     (case us uid of
        Some u \<Rightarrow> OwnRecord u
      | None \<Rightarrow> if uid \<in> set object_prototype_names then Member uid else NoUser)"

text \<open>
  \<open>data.users[uid] && data.users[uid].location\<close> and
  \<open>data.users[uid] && data.users[uid].pushTime\<close>: the property of the object itself, or
  else the one inherited from \<open>Object.prototype\<close>.
\<close>

definition own_props :: "world \<Rightarrow> user_ref \<Rightarrow> user_pref" where
  "own_props w r =
     (case r of NoUser \<Rightarrow> no_props | OwnRecord u \<Rightarrow> u | Member k \<Rightarrow> leaked w k)"

definition ref_location :: "world \<Rightarrow> user_ref \<Rightarrow> location_info option" where
  "ref_location w r =
     (case r of
        NoUser \<Rightarrow> None
      | _ \<Rightarrow> (case user_location (own_props w r) of
                Some l \<Rightarrow> Some l
              | None \<Rightarrow> user_location (leaked w (js ''__proto__''))))"

definition ref_pushTime :: "world \<Rightarrow> user_ref \<Rightarrow> stored option" where
  "ref_pushTime w r =
     (case r of
        NoUser \<Rightarrow> None
      | _ \<Rightarrow> (case pushTime (own_props w r) of
                Some v \<Rightarrow> Some v
              | None \<Rightarrow> pushTime (leaked w (js ''__proto__''))))"

text \<open>
  An assignment to a property of \<open>data.users[uid]\<close> followed by
  \<open>fs.writeFileSync(file, JSON.stringify(data))\<close>: on an own record the change reaches
  the file; on a member of \<open>Object.prototype\<close> it stays on the member and the file is
  written back with the document it held.
\<close>

definition write_prop ::
  "world \<Rightarrow> pref_doc \<Rightarrow> (jsstring \<rightharpoonup> user_pref) \<Rightarrow> jsstring \<Rightarrow> user_ref
     \<Rightarrow> (user_pref \<Rightarrow> user_pref) \<Rightarrow> world" where
  "write_prop w data us uid r upd =
     (case r of
        NoUser \<Rightarrow> w
      | OwnRecord u \<Rightarrow> w\<lparr>disk := Doc (data\<lparr>users := Some (us(uid \<mapsto> upd u))\<rparr>)\<rparr>
      | Member k \<Rightarrow> w\<lparr>disk := Doc data, leaked := (leaked w)(k := upd (leaked w k))\<rparr>)"

text \<open>\<open>if (!data.users[uid]) data.users[uid] = {}\<close>\<close>

definition or_new_record :: "user_ref \<Rightarrow> user_ref" where
  "or_new_record r = (case r of NoUser \<Rightarrow> OwnRecord no_props | _ \<Rightarrow> r)"

text \<open>The process-wide configuration: \<open>process.env.LOCATION || "101190104"\<close>.\<close>

definition defaultCity :: jsstring where "defaultCity = [0x5357, 0x4EAC]"
definition defaultDistrict :: jsstring where "defaultDistrict = [0x6C5F, 0x5B81]"

definition config_code :: "jsstring option \<Rightarrow> jsstring" where
  "config_code env_LOCATION =
     (case env_LOCATION of
        None \<Rightarrow> js ''101190104''
      | Some s \<Rightarrow> if s = [] then js ''101190104'' else s)"

definition ensurePreferenceFileExists :: "pref_file \<Rightarrow> pref_file" where
  "ensurePreferenceFileExists f =
     (case f of Missing \<Rightarrow> Doc \<lparr>users = Some Map.empty\<rparr> | _ \<Rightarrow> f)"

definition defaultLocation ::
  "runtime \<Rightarrow> jsstring option \<Rightarrow> directory \<Rightarrow> js_error + location_info" where
  "defaultLocation rt env_LOCATION locations =
     (case getLocationName rt locations defaultCity defaultDistrict of
        Inl e \<Rightarrow> Inl e
      | Inr n \<Rightarrow> Inr \<lparr>city = defaultCity, district = defaultDistrict,
                      code = Some (config_code env_LOCATION), name = n\<rparr>)"

text \<open>\<open>!code\<close> for a code that is a string or undefined.\<close>

definition falsy_str :: "jsstring option \<Rightarrow> bool" where
  "falsy_str c = (c = None \<or> c = Some [])"

text \<open>
  The function wrapped as \<^verbatim>\<open>getUserLocationPreference\<close>. The default location is
  built before the \<open>try\<close>; everything after it is inside the \<open>try\<close>, whose \<open>catch\<close>
  returns the default location.
\<close>

definition getUserLocationPreference_fn ::
  "runtime \<Rightarrow> jsstring option \<Rightarrow> directory \<Rightarrow> jsstring \<Rightarrow> world
     \<Rightarrow> (js_error + location_info) \<times> world" where
  "getUserLocationPreference_fn rt env_LOCATION locations uid w0 =
     (let w = w0\<lparr>disk := ensurePreferenceFileExists (disk w0)\<rparr>
      in case defaultLocation rt env_LOCATION locations of
           Inl e \<Rightarrow> (Inl e, w)
         | Inr dflt \<Rightarrow>
             (case disk w of
                Missing \<Rightarrow> (Inr dflt, w)
              | Unparsable \<Rightarrow> (Inr dflt, w)
              | Doc data \<Rightarrow>
                  (case users data of
                     None \<Rightarrow> (Inr dflt, w)
                   | Some us \<Rightarrow>
                       (let r = users_get us uid
                        in case ref_location w r of
                             Some l \<Rightarrow>
                               (case isLocationValid2 rt locations (city l) (district l) of
                                  Inl e \<Rightarrow> (Inr dflt, w)
                                | Inr valid \<Rightarrow>
                                    if valid then
                                      (case getLocationCode rt locations (city l) (district l) of
                                         Inl e \<Rightarrow> (Inr dflt, w)
                                       | Inr c \<Rightarrow>
                                           if falsy_str c
                                           then (Inr \<lparr>city = city l, district = district l,
                                                      code = code dflt,
                                                      name = Some (city l @ district l)\<rparr>, w)
                                           else
                                             (case getLocationName rt locations (city l) (district l) of
                                                Inl e \<Rightarrow> (Inr dflt, w)
                                              | Inr n \<Rightarrow>
                                                  (Inr \<lparr>city = city l, district = district l,
                                                        code = c, name = n\<rparr>, w)))
                                    else (Inr dflt, w))
                           | None \<Rightarrow>
                               (case r of
                                  NoUser \<Rightarrow> (Inr dflt, w)
                                | _ \<Rightarrow>
                                    (Inr dflt,
                                     write_prop w data us uid r
                                       (\<lambda>u. u\<lparr>user_location := Some dflt\<rparr>)))))))"

definition getUserLocationPreference ::
  "runtime \<Rightarrow> jsstring option \<Rightarrow> directory \<Rightarrow> jsstring \<Rightarrow> world
     \<Rightarrow> location_info handled \<times> world" where
  "getUserLocationPreference rt env_LOCATION locations uid w0 =
     (let r = getUserLocationPreference_fn rt env_LOCATION locations uid w0
      in (withErrorHandling (fst r), snd r))"

text \<open>The template \<open>${locationCode}\<close> prints \<open>undefined\<close> as the word.\<close>

definition to_string :: "jsstring option \<Rightarrow> jsstring" where
  "to_string v = (case v of None \<Rightarrow> js ''undefined'' | Some s \<Rightarrow> s)"

definition msg_invalid_code :: jsstring where
  "msg_invalid_code = [0x65E0, 0x6548, 0x7684, 0x5730, 0x533A, 0x4EE3, 0x7801, 58, 32]"

definition msg_invalid_time :: jsstring where
  "msg_invalid_time = [0x65E0, 0x6548, 0x7684, 0x63A8, 0x9001, 0x65F6, 0x95F4, 0x683C, 0x5F0F, 58, 32]"

definition msg_enoent :: jsstring where
  "msg_enoent = js ''ENOENT''"

text \<open>
  The function wrapped as \<^verbatim>\<open>setUserLocationPreference\<close>: the validation comes after
  \<open>ensurePreferenceFileExists\<close> and before the read; errors of the read-modify-write are
  rethrown. A record is created only when \<open>data.users[uid]\<close> is falsy.
\<close>

definition setUserLocationPreference_fn ::
  "directory \<Rightarrow> jsstring \<Rightarrow> jsstring option \<Rightarrow> world \<Rightarrow> (js_error + bool) \<times> world" where
  "setUserLocationPreference_fn locations uid locationCode w0 =
     (let w = w0\<lparr>disk := ensurePreferenceFileExists (disk w0)\<rparr>
      in if \<not> isLocationValid1 locations locationCode
         then (Inl (ValidationError (msg_invalid_code @ to_string locationCode)), w)
         else case disk w of
                Missing \<Rightarrow> (Inl (Error msg_enoent), w)
              | Unparsable \<Rightarrow> (Inl SyntaxError, w)
              | Doc data \<Rightarrow>
                  (case users data of
                     None \<Rightarrow> (Inl TypeError, w)
                   | Some us \<Rightarrow>
                       (let r = or_new_record (users_get us uid)
                        in case getLocationInfo locations locationCode of
                             None \<Rightarrow> (Inl TypeError, w)
                           | Some l \<Rightarrow>
                               (Inr True,
                                write_prop w data us uid r
                                  (\<lambda>u. u\<lparr>user_location :=
                                           Some \<lparr>city = city l, district = district l,
                                                 code = locationCode, name = name l\<rparr>\<rparr>)))))"

definition setUserLocationPreference ::
  "directory \<Rightarrow> jsstring \<Rightarrow> jsstring option \<Rightarrow> world \<Rightarrow> bool handled \<times> world" where
  "setUserLocationPreference locations uid locationCode w0 =
     (let r = setUserLocationPreference_fn locations uid locationCode w0
      in (withErrorHandling (fst r), snd r))"

text \<open>
  The two regular expressions of \<^verbatim>\<open>updatePushTime\<close>, on code units: \<open>58\<close> is the
  colon, \<open>48 .. 57\<close> are the digits. Without the \<open>m\<close> flag \<open>^\<close> and \<open>$\<close> match only at
  the two ends of the string.
\<close>

definition is_digit :: "nat \<Rightarrow> bool" where
  "is_digit c = (48 \<le> c \<and> c \<le> 57)"

text \<open>\<open>/^(\d):([0-5]\d)$/\<close>, returning the two groups.\<close>

definition singleDigitMatch :: "jsstring \<Rightarrow> (jsstring \<times> jsstring) option" where
  "singleDigitMatch time =
     (case time of
        [h, c, m1, m2] \<Rightarrow>
          if is_digit h \<and> c = 58 \<and> 48 \<le> m1 \<and> m1 \<le> 53 \<and> is_digit m2
          then Some ([h], [m1, m2]) else None
      | _ \<Rightarrow> None)"

text \<open>\<open>/^([01]\d|2[0-3]):([0-5]\d)$/\<close>\<close>

definition timePattern :: "jsstring \<Rightarrow> bool" where
  "timePattern s =
     (case s of
        [h1, h2, c, m1, m2] \<Rightarrow>
          (((h1 = 48 \<or> h1 = 49) \<and> is_digit h2) \<or> (h1 = 50 \<and> 48 \<le> h2 \<and> h2 \<le> 51))
          \<and> c = 58 \<and> 48 \<le> m1 \<and> m1 \<le> 53 \<and> is_digit m2
      | _ \<Rightarrow> False)"

definition formattedTime :: "jsstring \<Rightarrow> jsstring" where
  "formattedTime time =
     (case singleDigitMatch time of
        Some (h, mm) \<Rightarrow> [48] @ h @ [58] @ mm
      | None \<Rightarrow> time)"

text \<open>
  The function wrapped as \<^verbatim>\<open>updatePushTime\<close>, with the same order of steps as the
  setter of the location.
\<close>

definition updatePushTime_fn ::
  "jsstring \<Rightarrow> jsstring \<Rightarrow> world \<Rightarrow> (js_error + bool) \<times> world" where
  "updatePushTime_fn uid time w0 =
     (let w = w0\<lparr>disk := ensurePreferenceFileExists (disk w0)\<rparr>
      in if \<not> timePattern (formattedTime time)
         then (Inl (ValidationError (msg_invalid_time @ time)), w)
         else case disk w of
                Missing \<Rightarrow> (Inl (Error msg_enoent), w)
              | Unparsable \<Rightarrow> (Inl SyntaxError, w)
              | Doc data \<Rightarrow>
                  (case users data of
                     None \<Rightarrow> (Inl TypeError, w)
                   | Some us \<Rightarrow>
                       (let r = or_new_record (users_get us uid)
                        in (Inr True,
                            write_prop w data us uid r
                              (\<lambda>u. u\<lparr>pushTime := Some (Str (formattedTime time))\<rparr>)))))"

definition updatePushTime ::
  "jsstring \<Rightarrow> jsstring \<Rightarrow> world \<Rightarrow> bool handled \<times> world" where
  "updatePushTime uid time w0 =
     (let r = updatePushTime_fn uid time w0 in (withErrorHandling (fst r), snd r))"



section \<open>Reading the state\<close>

text \<open>
  What the file holds for a user, as own properties: the record and its push time. A
  missing or unparsable file, or a document without \<open>users\<close>, holds nothing.
\<close>

definition stored_user :: "pref_file \<Rightarrow> jsstring \<Rightarrow> user_pref option" where
  "stored_user f uid =
     (case f of
        Doc data \<Rightarrow> (case users data of None \<Rightarrow> None | Some us \<Rightarrow> us uid)
      | _ \<Rightarrow> None)"

definition stored_pushTime :: "pref_file \<Rightarrow> jsstring \<Rightarrow> stored option" where
  "stored_pushTime f uid = (case stored_user f uid of None \<Rightarrow> None | Some u \<Rightarrow> pushTime u)"

text \<open>
  What a read of the file finds for a user in the running process:
  \<open>data.users && data.users[uid]\<close> and the two fields, through the prototype chain.
\<close>

definition user_ref_of :: "pref_file \<Rightarrow> jsstring \<Rightarrow> user_ref" where
  "user_ref_of f uid =
     (case f of
        Doc data \<Rightarrow> (case users data of None \<Rightarrow> NoUser | Some us \<Rightarrow> users_get us uid)
      | _ \<Rightarrow> NoUser)"

definition visible_location :: "world \<Rightarrow> jsstring \<Rightarrow> location_info option" where
  "visible_location w uid = ref_location w (user_ref_of (disk w) uid)"

definition visible_pushTime :: "world \<Rightarrow> jsstring \<Rightarrow> stored option" where
  "visible_pushTime w uid = ref_pushTime w (user_ref_of (disk w) uid)"

text \<open>The state after \<open>ensurePreferenceFileExists()\<close>, on which the two getters read.\<close>

definition ensured :: "world \<Rightarrow> world" where
  "ensured w = w\<lparr>disk := ensurePreferenceFileExists (disk w)\<rparr>"

text \<open>
  The default location with its fields spelled out: the configured city, district and
  code, and the name the directory lists for that city and district.
\<close>

definition configured_default :: "jsstring option \<Rightarrow> directory \<Rightarrow> location_info" where
  "configured_default env_LOCATION locations =
     \<lparr>city = defaultCity, district = defaultDistrict,
      code = Some (config_code env_LOCATION),
      name = (case own_entry locations defaultCity defaultDistrict of
                None \<Rightarrow> None
              | Some e \<Rightarrow> entry_name e)\<rparr>"

text \<open>A clock time written with two digits per part, for comparison with \<open>timePattern\<close>.\<close>

definition pad2 :: "nat \<Rightarrow> jsstring" where
  "pad2 n = [48 + n div 10, 48 + n mod 10]"

section \<open>Sample documents and directories\<close>

text \<open>Concrete files and directories on which the properties below are evaluated.\<close>

definition u1_doc :: pref_file where
  "u1_doc = Doc \<lparr>users = Some [js ''u1'' \<mapsto> \<lparr>user_location = None, pushTime = Some (Str (js ''08:30''))\<rparr>]\<rparr>"


definition beijing_dir :: directory where
  "beijing_dir = [(js ''Beijing'',
     [(js ''Chaoyang'', \<lparr>entry_code = Some (js ''101010900''), entry_name = Some (js ''BeijingChaoyang'')\<rparr>)])]"

text \<open>A user whose stored location names members of \<open>Object.prototype\<close>.\<close>

definition inherited_doc :: pref_file where
  "inherited_doc = Doc \<lparr>users = Some [js ''u1'' \<mapsto>
     \<lparr>user_location = Some \<lparr>city = js ''constructor'', district = js ''name'',
                             code = None, name = None\<rparr>,
      pushTime = None\<rparr>]\<rparr>"

section \<open>Token service (services/jwtService)\<close>

text \<open>
  A token is modelled by what is signed: the protected header's \<open>kid\<close> and the payload
  \<open>sub\<close>, \<open>iat\<close>, \<open>exp\<close> (seconds). The environment gives the two identifiers and
  tells whether reading the key file, importing the key or signing throws, and with which
  message. \<open>Date.now()\<close> is an argument, in milliseconds.
\<close>

record jwt =
  kid :: jsstring
  sub :: jsstring
  iat :: int
  exp :: int

record jwt_env =
  HEFENG_KEY_ID :: "jsstring option"
  HEFENG_PROJECT_ID :: "jsstring option"
  read_error :: "jsstring option"
  sign_error :: "jsstring option"

definition msg_jwt_params :: jsstring where
  "msg_jwt_params =
     [0x7F3A, 0x5C11, 0x5FC5, 0x8981, 0x7684] @ js ''JWT''
     @ [0x53C2, 0x6570, 0xFF0C, 0x8BF7, 0x68C0, 0x67E5, 0x73AF, 0x5883, 0x53D8, 0x91CF, 0x4E2D,
        0x662F, 0x5426, 0x8BBE, 0x7F6E, 0x4E86]
     @ js ''HEFENG_KEY_ID'' @ [0x548C] @ js ''HEFENG_PROJECT_ID''"

definition msg_jwt_failed :: jsstring where
  "msg_jwt_failed = [0x751F, 0x6210] @ js ''JWT'' @ [0x5931, 0x8D25, 0xFF1A]"

text \<open>
  \<^verbatim>\<open>generateWeatherJWT()\<close>; \<open>now_ms\<close> is the reading of \<open>Date.now()\<close> inside it. Every
  error is caught and rethrown with the prefixed message.
\<close>

definition generateWeatherJWT :: "jwt_env \<Rightarrow> int \<Rightarrow> js_error + jwt" where
  "generateWeatherJWT env now_ms =
     (case read_error env of
        Some m \<Rightarrow> Inl (Error (msg_jwt_failed @ m))
      | None \<Rightarrow>
          if falsy_str (HEFENG_KEY_ID env) \<or> falsy_str (HEFENG_PROJECT_ID env)
          then Inl (Error (msg_jwt_failed @ msg_jwt_params))
          else case sign_error env of
                 Some m \<Rightarrow> Inl (Error (msg_jwt_failed @ m))
               | None \<Rightarrow>
                   (let now = now_ms div 1000 - 30
                    in Inr \<lparr>kid = to_string (HEFENG_KEY_ID env),
                            sub = to_string (HEFENG_PROJECT_ID env),
                            iat = now, exp = now + 3600\<rparr>))"

text \<open>The module state \<open>cachedToken\<close>, \<open>tokenExpiry\<close> and its initial value.\<close>

record jwt_cache =
  cachedToken :: "jwt option"
  tokenExpiry :: int

definition jwt_init :: jwt_cache where
  "jwt_init = \<lparr>cachedToken = None, tokenExpiry = 0\<rparr>"

definition regenerate :: "jwt_env \<Rightarrow> jwt_cache \<Rightarrow> int \<Rightarrow> int \<Rightarrow> (js_error + jwt) \<times> jwt_cache" where
  "regenerate env c now now_gen =
     (case generateWeatherJWT env now_gen of
        Inl e \<Rightarrow> (Inl e, c)
      | Inr t \<Rightarrow> (Inr t, \<lparr>cachedToken = Some t, tokenExpiry = now + 50 * 60 * 1000\<rparr>))"

text \<open>
  \<^verbatim>\<open>getJWTToken()\<close>: \<open>now\<close> is its own reading of the clock, \<open>now_gen\<close> the later reading
  inside \<open>generateWeatherJWT\<close> when that is called.
\<close>

definition getJWTToken :: "jwt_env \<Rightarrow> jwt_cache \<Rightarrow> int \<Rightarrow> int \<Rightarrow> (js_error + jwt) \<times> jwt_cache" where
  "getJWTToken env c now now_gen =
     (case cachedToken c of
        None \<Rightarrow> regenerate env c now now_gen
      | Some t \<Rightarrow>
          if now > tokenExpiry c - 300000 then regenerate env c now now_gen
          else (Inr t, c))"

text \<open>The cache after a sequence of calls, each with its environment and clock readings.\<close>

fun after_calls :: "jwt_cache \<Rightarrow> (jwt_env \<times> int \<times> int) list \<Rightarrow> jwt_cache" where
  "after_calls c [] = c"
| "after_calls c ((env, now, now_gen) # calls) =
     after_calls (snd (getJWTToken env c now now_gen)) calls"

text \<open>
  The clock does not run backwards inside a call, and the invariant that links the cache
  expiry to the nominal expiry of the cached token.
\<close>

definition monotone_calls :: "(jwt_env \<times> int \<times> int) list \<Rightarrow> bool" where
  "monotone_calls calls = list_all (\<lambda>(env, now, now_gen). now \<le> now_gen) calls"

definition cache_inv :: "jwt_cache \<Rightarrow> bool" where
  "cache_inv c =
     (case cachedToken c of
        None \<Rightarrow> True
      | Some t \<Rightarrow> tokenExpiry c + 569000 < 1000 * exp t)"

text \<open>A working environment and the token it yields when generated at second \<open>s\<close>.\<close>

definition env_ok :: jwt_env where
  "env_ok = \<lparr>HEFENG_KEY_ID = Some (js ''K1''), HEFENG_PROJECT_ID = Some (js ''P1''),
             read_error = None, sign_error = None\<rparr>"

definition token_at :: "int \<Rightarrow> jwt" where
  "token_at s = \<lparr>kid = js ''K1'', sub = js ''P1'', iat = s, exp = s + 3600\<rparr>"

section \<open>Charts (services/chartService) and the message (services/weatherService)\<close>

text \<open>
  A daily entry of the forecast. The fields the code reads behind a guard
  (\<open>tomorrow.fxDate || ...\<close>, \<open>parseInt(day.pop || "0")\<close>) may be absent; \<open>textDay\<close> and
  \<open>textNight\<close>, which it reads unguarded, are strings.
\<close>

record day =
  fxDate :: "jsstring option"
  textDay :: jsstring
  textNight :: jsstring
  tempMin :: "jsstring option"
  tempMax :: "jsstring option"
  windDirDay :: "jsstring option"
  windScaleDay :: "jsstring option"
  humidity :: "jsstring option"
  precip :: "jsstring option"
  pop :: "jsstring option"

datatype chart_kind = TemperatureChart | RainfallChart | WindChart

text \<open>
  What one run of \<^verbatim>\<open>generateChartImageWithString\<close> meets: \<open>JSON.parse\<close> of the
  configuration throws, or the request to the chart API throws, or the API responds with
  a status, after which writing the image throws (\<open>None\<close>) or succeeds at a timestamp.
\<close>

datatype chart_outcome =
    ParseThrows
  | RequestThrows
  | Responded nat "jsstring option"

text \<open>Every path but the last returns null; the whole body is inside \<open>try\<close>.\<close>

definition generateChartImageWithString :: "chart_outcome \<Rightarrow> jsstring \<Rightarrow> jsstring option" where
  "generateChartImageWithString outcome filePrefix =
     (case outcome of
        ParseThrows \<Rightarrow> None
      | RequestThrows \<Rightarrow> None
      | Responded status written \<Rightarrow>
          if status \<noteq> 200 then None
          else case written of
                 None \<Rightarrow> None
               | Some timestamp \<Rightarrow> Some (filePrefix @ js ''_'' @ timestamp @ js ''.png''))"

text \<open>
  The three generators share their shape: null for fewer than three days, else the image
  is requested under the generator's file prefix and the URL \<open>/charts/<filename>\<close> is
  returned, or null when no file was produced. They are async functions: \<open>Inl\<close> would be
  a rejected promise.
\<close>

definition generate_chart ::
  "jsstring \<Rightarrow> chart_outcome \<Rightarrow> day list option \<Rightarrow> jsstring \<Rightarrow> js_error + jsstring option" where
  "generate_chart prefix outcome dailyData locationCode =
     (case dailyData of
        None \<Rightarrow> Inr None
      | Some ds \<Rightarrow>
          if length ds < 3 then Inr None
          else case generateChartImageWithString outcome (prefix @ locationCode) of
                 None \<Rightarrow> Inr None
               | Some filename \<Rightarrow>
                   if filename = [] then Inr None else Inr (Some (js ''/charts/'' @ filename)))"

definition generateTemperatureChart ::
  "chart_outcome \<Rightarrow> day list option \<Rightarrow> jsstring \<Rightarrow> js_error + jsstring option" where
  "generateTemperatureChart = generate_chart (js ''temp_chart_'')"

definition generateRainfallChart ::
  "chart_outcome \<Rightarrow> day list option \<Rightarrow> jsstring \<Rightarrow> js_error + jsstring option" where
  "generateRainfallChart = generate_chart (js ''rain_chart_'')"

definition generateWindChart ::
  "chart_outcome \<Rightarrow> day list option \<Rightarrow> jsstring \<Rightarrow> js_error + jsstring option" where
  "generateWindChart = generate_chart (js ''wind_chart_'')"

text \<open>
  The message is kept as its sequence of sections instead of the HTML text; a chart section
  carries the address of its image. \<open>PlainText\<close> is the bare string returned when there
  is no entry for tomorrow.
\<close>

datatype html_section =
    Header jsstring jsstring
  | Conditions day
  | Alert jsstring
  | Trend "day list"
  | Chart chart_kind jsstring
  | Clothing jsstring
  | Footer

datatype message = PlainText jsstring | Html "html_section list"

text \<open>
  What the formatter takes from outside: the outcome of each chart request, the base
  address of the server (\<open>process.env.SERVER_BASE_URL || `http://localhost:...`\<close>) and
  the wording helper \<^verbatim>\<open>generateWeatherAlert\<close>.
\<close>

record format_env =
  chart_api :: "chart_kind \<Rightarrow> chart_outcome"
  serverBaseUrl :: jsstring
  generateWeatherAlert :: "day \<Rightarrow> jsstring option"

text \<open>\<open>value || fallback\<close> on a string that may be undefined.\<close>

definition or_else :: "jsstring option \<Rightarrow> jsstring \<Rightarrow> jsstring" where
  "or_else v fallback = (if falsy_str v then fallback else to_string v)"

definition nanjing_jiangning :: jsstring where
  "nanjing_jiangning = [0x5357, 0x4EAC, 0x6C5F, 0x5B81]"

definition msg_tomorrow :: jsstring where
  "msg_tomorrow = [0x660E, 0x5929]"

text \<open>
  \<open>await Promise.all(chartPromises)\<close> inside \<open>try\<close>: when one promise rejects, the
  \<open>catch\<close> leaves all three addresses null.
\<close>

definition chart_urls ::
  "format_env \<Rightarrow> day list \<Rightarrow> jsstring \<Rightarrow> jsstring option \<times> jsstring option \<times> jsstring option" where
  "chart_urls env ds locationCode =
     (case (generateTemperatureChart (chart_api env TemperatureChart) (Some ds) locationCode,
            generateRainfallChart (chart_api env RainfallChart) (Some ds) locationCode,
            generateWindChart (chart_api env WindChart) (Some ds) locationCode) of
        (Inr tempChart, Inr rainChart, Inr windChart) \<Rightarrow> (tempChart, rainChart, windChart)
      | _ \<Rightarrow> (None, None, None))"

text \<open>\<open>if (url) { html += chart section with serverBaseUrl + url }\<close>\<close>

definition chart_section :: "format_env \<Rightarrow> chart_kind \<Rightarrow> jsstring option \<Rightarrow> html_section list" where
  "chart_section env k url =
     (if falsy_str url then [] else [Chart k (serverBaseUrl env @ to_string url)])"

definition formatWeatherData ::
  "format_env \<Rightarrow> day weather_data option \<Rightarrow> jsstring option \<Rightarrow> message" where
  "formatWeatherData env weatherData clothingSuggestion =
     (case weatherData of
        None \<Rightarrow> PlainText msg_no_tomorrow
      | Some w \<Rightarrow>
          (case daily w of
             None \<Rightarrow> PlainText msg_no_tomorrow
           | Some ds \<Rightarrow>
               if length ds < 2 then PlainText msg_no_tomorrow
               else
                 (let locationCode = or_else (location w) (js ''101190104'');
                      tomorrow = ds ! 1;
                      cityName = or_else (locationName w) nanjing_jiangning;
                      date = or_else (fxDate tomorrow) msg_tomorrow;
                      weatherAlert = generateWeatherAlert env tomorrow;
                      urls = (if 3 \<le> length ds then chart_urls env ds locationCode
                              else (None, None, None))
                  in Html ([Header cityName date, Conditions tomorrow]
                       @ (if falsy_str weatherAlert then [] else [Alert (to_string weatherAlert)])
                       @ (if 3 \<le> length ds
                          then [Trend (take 3 ds)]
                               @ chart_section env TemperatureChart (fst urls)
                               @ chart_section env RainfallChart (fst (snd urls))
                               @ chart_section env WindChart (snd (snd urls))
                          else [])
                       @ (if falsy_str clothingSuggestion then []
                          else [Clothing (to_string clothingSuggestion)])
                       @ [Footer]))))"

text \<open>A chart request succeeded: status 200 and the image written.\<close>

fun chart_saved :: "chart_outcome \<Rightarrow> bool" where
  "chart_saved (Responded status (Some timestamp)) = (status = 200)"
| "chart_saved _ = False"

fun chart_kinds :: "html_section list \<Rightarrow> chart_kind list" where
  "chart_kinds [] = []"
| "chart_kinds (Chart k url # secs) = k # chart_kinds secs"
| "chart_kinds (s # secs) = chart_kinds secs"

text \<open>A forecast of three sunny days, and a formatter environment whose rainfall request throws.\<close>

definition sunny :: "jsstring \<Rightarrow> day" where
  "sunny d = \<lparr>fxDate = Some d, textDay = [0x6674], textNight = [0x6674],
              tempMin = Some (js ''10''), tempMax = Some (js ''20''),
              windDirDay = None, windScaleDay = Some (js ''2''), humidity = Some (js ''40''),
              precip = Some (js ''0.0''), pop = Some (js ''0'')\<rparr>"

definition three_days :: "day weather_data" where
  "three_days =
     \<lparr>daily = Some [sunny (js ''2025-01-01''), sunny (js ''2025-01-02''), sunny (js ''2025-01-03'')],
      location = None, locationName = Some (js ''Nanjing'')\<rparr>"

definition rain_fails :: format_env where
  "rain_fails =
     \<lparr>chart_api = (\<lambda>k. case k of
          TemperatureChart \<Rightarrow> Responded 200 (Some (js ''1700000000000''))
        | RainfallChart \<Rightarrow> RequestThrows
        | WindChart \<Rightarrow> Responded 200 (Some (js ''1700000000002''))),
      serverBaseUrl = js ''http://localhost:3000'',
      generateWeatherAlert = (\<lambda>d. None)\<rparr>"

section \<open>Push pipeline and scheduler (index.js)\<close>

text \<open>
  The services one run of the pipeline calls outside the process: the forecast request,
  the suggestion request, the chart requests met by the formatter, and the push request.
  Each is given by its outcome, \<open>Inl\<close> for a rejected promise. A call is taken to settle:
  no timeout exists in the code, and a call that never settles is outside this model.
\<close>

record services =
  getWeatherByLocation :: "jsstring \<Rightarrow> jsstring \<Rightarrow> js_error + day weather_data option"
  getClothingSuggestion :: "day \<Rightarrow> js_error + jsstring option"
  formatter :: format_env
  pushMessageToUsers :: "message \<Rightarrow> jsstring list \<Rightarrow> bool \<Rightarrow> jsstring \<Rightarrow> js_error + unit"

text \<open>
  The log lines that mark the course of a run: the start of a user's pipeline, its
  successful push, and the error caught for the user.
\<close>

datatype event =
    Started jsstring
  | Pushed jsstring message jsstring
  | Failed jsstring js_error

definition msg_forecast :: jsstring where
  "msg_forecast = [0x5929, 0x6C14, 0x9884, 0x62A5]"

definition msg_unknown_region :: jsstring where
  "msg_unknown_region = [0x672A, 0x77E5, 0x5730, 0x533A]"

text \<open>
  The direct read of the preference file inside the loop body: \<open>userPref\<close> is set when
  \<open>data.users[uid].location\<close> is found, and stays null when the read throws or finds none.
\<close>

definition direct_userPref :: "world \<Rightarrow> jsstring \<Rightarrow> (jsstring option \<times> jsstring option) option" where
  "direct_userPref w uid =
     (case visible_location w uid of
        None \<Rightarrow> None
      | Some l \<Rightarrow> Some (code l, Some (or_else (name l) (city l @ district l))))"

text \<open>
  The body of the loop for one user. \<^verbatim>\<open>getUserLocationPreference(uid)\<close> is called
  without \<open>await\<close>: its effect on the file happens, its result is a pending promise, an
  object whose \<open>error\<close>, \<open>code\<close> and \<open>name\<close> are undefined. So the \<open>continue\<close> is never
  taken, and when the direct read finds nothing \<open>userPref\<close> is
  \<open>{code: undefined, name: undefined}\<close>. Every error thrown after that is caught by the
  \<open>catch\<close> of the body.
\<close>

definition push_one ::
  "runtime \<Rightarrow> jsstring option \<Rightarrow> directory \<Rightarrow> services \<Rightarrow> jsstring \<Rightarrow> world
     \<Rightarrow> event list \<times> world" where
  "push_one rt env_LOCATION locations sv uid w =
     (let w1 = snd (getUserLocationPreference rt env_LOCATION locations uid w);
          userPref = (case direct_userPref w1 uid of
                        Some p \<Rightarrow> p
                      | None \<Rightarrow> (None, None));
          invalid = (falsy_str (fst userPref) \<or> fst userPref = Some (js ''undefined''));
          locationCode = (if invalid then js ''101190104'' else to_string (fst userPref));
          locationName = (if invalid then nanjing_jiangning
                          else or_else (snd userPref) msg_unknown_region)
      in case getWeatherByLocation sv locationCode locationName of
           Inl e \<Rightarrow> ([Started uid, Failed uid e], w1)
         | Inr weatherData \<Rightarrow>
             (case getTomorrowWeather weatherData of
                Inl e \<Rightarrow> ([Started uid, Failed uid e], w1)
              | Inr tomorrowWeather \<Rightarrow>
                  (let pushSummary = locationName @ msg_forecast @ js '' ''
                         @ to_string (fxDate tomorrowWeather) @ js '' '' @ textDay tomorrowWeather;
                       clothingSuggestion =
                         (case getClothingSuggestion sv tomorrowWeather of
                            Inl e \<Rightarrow> None
                          | Inr s \<Rightarrow> s);
                       formattedWeather =
                         formatWeatherData (formatter sv) weatherData clothingSuggestion
                   in case pushMessageToUsers sv formattedWeather [uid] True pushSummary of
                        Inl e \<Rightarrow> ([Started uid, Failed uid e], w1)
                      | Inr ok \<Rightarrow> ([Started uid, Pushed uid formattedWeather pushSummary], w1))))"

text \<open>
  \<open>for (const uid of userUids)\<close>; the services met by the \<open>i\<close>-th iteration are
  \<open>sv i\<close>, so that they may differ from one user to the next in any way.
\<close>

fun push_loop ::
  "runtime \<Rightarrow> jsstring option \<Rightarrow> directory \<Rightarrow> (nat \<Rightarrow> services) \<Rightarrow> nat \<Rightarrow> jsstring list
     \<Rightarrow> world \<Rightarrow> event list \<times> world" where
  "push_loop rt env_LOCATION locations sv i [] w = ([], w)"
| "push_loop rt env_LOCATION locations sv i (uid # rest) w =
     (let r1 = push_one rt env_LOCATION locations (sv i) uid w;
          r2 = push_loop rt env_LOCATION locations sv (Suc i) rest (snd r1)
      in (fst r1 @ fst r2, snd r2))"

text \<open>
  \<^verbatim>\<open>getWeatherAndPush(targetUids = null)\<close>, wrapped by \<open>withErrorHandling(..., true)\<close>.
  \<open>enabled\<close> is what \<^verbatim>\<open>getEnabledUserUids()\<close> returns (the empty list when the provider
  fails). An array, even empty, is truthy.
\<close>

definition getWeatherAndPush_fn ::
  "runtime \<Rightarrow> jsstring option \<Rightarrow> directory \<Rightarrow> (nat \<Rightarrow> services) \<Rightarrow> jsstring list
     \<Rightarrow> jsstring list option \<Rightarrow> world \<Rightarrow> (js_error + unit) \<times> event list \<times> world" where
  "getWeatherAndPush_fn rt env_LOCATION locations sv enabled targetUids w =
     (let userUids = (case targetUids of Some us \<Rightarrow> us | None \<Rightarrow> enabled)
      in if length userUids = 0 then (Inr (), [], w)
         else (Inr (), push_loop rt env_LOCATION locations sv 0 userUids w))"

definition getWeatherAndPush ::
  "runtime \<Rightarrow> jsstring option \<Rightarrow> directory \<Rightarrow> (nat \<Rightarrow> services) \<Rightarrow> jsstring list
     \<Rightarrow> jsstring list option \<Rightarrow> world \<Rightarrow> unit handled \<times> event list \<times> world" where
  "getWeatherAndPush rt env_LOCATION locations sv enabled targetUids w =
     (let r = getWeatherAndPush_fn rt env_LOCATION locations sv enabled targetUids w
      in (withErrorHandling (fst r), snd r))"

text \<open>The users whose pipeline was started, and those whose pipeline came to an end, in order.\<close>

fun attempted :: "event list \<Rightarrow> jsstring list" where
  "attempted [] = []"
| "attempted (Started uid # es) = uid # attempted es"
| "attempted (e # es) = attempted es"

fun concluded :: "event list \<Rightarrow> jsstring list" where
  "concluded [] = []"
| "concluded (Started uid # es) = concluded es"
| "concluded (Pushed uid m s # es) = uid # concluded es"
| "concluded (Failed uid e # es) = uid # concluded es"

text \<open>
  The scheduler. \<open>String.prototype.split\<close> on one separator unit:
\<close>

fun split_on :: "nat \<Rightarrow> jsstring \<Rightarrow> jsstring list" where
  "split_on c [] = [[]]"
| "split_on c (x # xs) =
     (if x = c then [] # split_on c xs
      else case split_on c xs of
             [] \<Rightarrow> [[x]]
           | p # ps \<Rightarrow> (x # p) # ps)"

text \<open>
  \<open>const [hour, minute] = userPushTime.split(":").map(Number)\<close> followed by
  \<open>hour === currentHour && minute === currentMinute\<close>. The conversion \<open>Number\<close> is a
  parameter \<open>num\<close>: \<open>num s = Some k\<close> when \<open>Number(s)\<close> is the integer \<open>k\<close>, and \<open>None\<close>
  when it is \<open>NaN\<close> or no integer, which no hour or minute of the clock equals. With a
  single part \<open>minute\<close> is undefined.
\<close>

definition time_matches :: "(jsstring \<Rightarrow> int option) \<Rightarrow> jsstring \<Rightarrow> int \<Rightarrow> int \<Rightarrow> bool" where
  "time_matches num userPushTime currentHour currentMinute =
     (case split_on 58 userPushTime of
        hour # minute # rest \<Rightarrow> num hour = Some currentHour \<and> num minute = Some currentMinute
      | _ \<Rightarrow> False)"

text \<open>The record the scheduler writes for a user it does not know.\<close>

definition default_record :: user_pref where
  "default_record =
     \<lparr>user_location = Some \<lparr>city = defaultCity, district = defaultDistrict,
                             code = Some (js ''101190104''), name = Some nanjing_jiangning\<rparr>,
      pushTime = Some (Str (js ''20:00''))\<rparr>"

text \<open>
  The \<open>try\<close> block of the scheduler for one user: the push time read from the file, or
  the default with the backfill. A record is created only when \<open>data.users[uid]\<close> is
  falsy; with no file, the file is created holding the record of this user. The branch
  that would backfill a missing location is kept as written, after the test of the push
  time.
\<close>

definition read_pushTime :: "jsstring \<Rightarrow> world \<Rightarrow> stored option \<times> world" where
  "read_pushTime uid w =
     (case disk w of
        Missing \<Rightarrow>
          (Some (Str (js ''20:00'')), w\<lparr>disk := Doc \<lparr>users = Some [uid \<mapsto> default_record]\<rparr>\<rparr>)
      | Unparsable \<Rightarrow> (Some (Str (js ''20:00'')), w)
      | Doc data \<Rightarrow>
          (case users data of
             None \<Rightarrow> (Some (Str (js ''20:00'')), w)
           | Some us \<Rightarrow>
               (let r = users_get us uid
                in if truthy (ref_pushTime w r) then (ref_pushTime w r, w)
                   else
                     (case r of
                        NoUser \<Rightarrow>
                          (Some (Str (js ''20:00'')),
                           w\<lparr>disk := Doc (data\<lparr>users := Some (us(uid \<mapsto> default_record))\<rparr>)\<rparr>)
                      | _ \<Rightarrow>
                          if \<not> truthy (ref_pushTime w r) then
                            (Some (Str (js ''20:00'')),
                             write_prop w data us uid r
                               (\<lambda>u. u\<lparr>pushTime := Some (Str (js ''20:00''))\<rparr>))
                          else if ref_location w r = None then
                            (Some (Str (js ''20:00'')),
                             write_prop w data us uid r
                               (\<lambda>u. u\<lparr>user_location := user_location default_record\<rparr>))
                          else (Some (Str (js ''20:00'')), w)))))"

text \<open>\<open>if (!userPushTime || typeof userPushTime !== "string") userPushTime = "20:00"\<close>\<close>

definition valid_or_default :: "stored option \<Rightarrow> jsstring" where
  "valid_or_default v =
     (case v of
        Some (Str s) \<Rightarrow> if s = [] then js ''20:00'' else s
      | _ \<Rightarrow> js ''20:00'')"

text \<open>The loop over the enabled users, collecting \<open>usersToPush\<close>.\<close>

fun check_users ::
  "(jsstring \<Rightarrow> int option) \<Rightarrow> int \<Rightarrow> int \<Rightarrow> jsstring list \<Rightarrow> world \<Rightarrow> jsstring list \<times> world" where
  "check_users num currentHour currentMinute [] w = ([], w)"
| "check_users num currentHour currentMinute (uid # rest) w =
     (let r = read_pushTime uid w;
          userPushTime = valid_or_default (fst r);
          r2 = check_users num currentHour currentMinute rest (snd r)
      in (if time_matches num userPushTime currentHour currentMinute then uid # fst r2 else fst r2,
          snd r2))"

text \<open>
  One firing of the job scheduled every minute, at wall-clock time
  \<open>currentHour:currentMinute\<close>, with \<open>userUids\<close> from \<^verbatim>\<open>getEnabledUserUids()\<close>.
\<close>

definition scheduleTask_job ::
  "runtime \<Rightarrow> (jsstring \<Rightarrow> int option) \<Rightarrow> jsstring option \<Rightarrow> directory \<Rightarrow> (nat \<Rightarrow> services)
     \<Rightarrow> jsstring list \<Rightarrow> int \<Rightarrow> int \<Rightarrow> world \<Rightarrow> event list \<times> world" where
  "scheduleTask_job rt num env_LOCATION locations sv userUids currentHour currentMinute w =
     (if length userUids = 0 then ([], w)
      else
        (let r = check_users num currentHour currentMinute userUids w;
             usersToPush = fst r
         in if length usersToPush > 0
            then snd (getWeatherAndPush rt env_LOCATION locations sv userUids (Some usersToPush) (snd r))
            else ([], snd r)))"

text \<open>
  The push time the scheduler resolves for a user from the state as it is when the job
  fires: the push time read for the user when it is a non-empty string, else \<open>"20:00"\<close>.
\<close>

definition resolved_pushTime :: "world \<Rightarrow> jsstring \<Rightarrow> jsstring" where
  "resolved_pushTime w uid = valid_or_default (visible_pushTime w uid)"


text \<open>
  An instance of the conversion for the examples: the value of a string of decimal digits,
  and 0 for the empty string, as \<open>Number\<close> gives them; other strings are given no value.
\<close>

definition decimal_Number :: "jsstring \<Rightarrow> int option" where
  "decimal_Number s =
     (if list_all is_digit s then Some (foldl (\<lambda>a c. 10 * a + (int c - 48)) 0 s) else None)"

text \<open>Two users with push times 08:30 and 08:31, and services whose forecast request fails.\<close>

definition two_users :: pref_file where
  "two_users = Doc \<lparr>users = Some [js ''u1'' \<mapsto> \<lparr>user_location = None, pushTime = Some (Str (js ''08:30''))\<rparr>,
                                 js ''u2'' \<mapsto> \<lparr>user_location = None, pushTime = Some (Str (js ''08:31''))\<rparr>]\<rparr>"

text \<open>A user whose stored push time is a string that is no clock time.\<close>

definition no_clock_doc :: pref_file where
  "no_clock_doc = Doc \<lparr>users = Some [js ''u1'' \<mapsto> \<lparr>user_location = None, pushTime = Some (Str (js ''abc''))\<rparr>]\<rparr>"

definition sv_down :: services where
  "sv_down = \<lparr>getWeatherByLocation = (\<lambda>c n. Inl (Error (js ''timeout''))),
              getClothingSuggestion = (\<lambda>d. Inr None),
              formatter = rain_fails,
              pushMessageToUsers = (\<lambda>m us h s. Inr ())\<rparr>"

definition sv_up :: services where
  "sv_up = \<lparr>getWeatherByLocation = (\<lambda>c n. Inr (Some three_days)),
            getClothingSuggestion = (\<lambda>d. Inl (Error (js ''busy''))),
            formatter = rain_fails,
            pushMessageToUsers = (\<lambda>m us h s. Inr ())\<rparr>"

definition first_down :: "nat \<Rightarrow> services" where
  "first_down i = (if i = 0 then sv_down else sv_up)"

section \<open>Command handler (services/messageHandler)\<close>

subsection \<open>String primitives\<close>

text \<open>
  \<open>startsWith\<close>, \<open>includes\<close> and \<open>trim\<close> on code units. \<open>is_space\<close> is the class
  \<open>\s\<close> (white space and line terminators, which \<open>trim\<close> strips too);
  \<open>is_line_terminator\<close> lists the units that \<open>.\<close> does not match.
\<close>

definition startsWith :: "jsstring \<Rightarrow> jsstring \<Rightarrow> bool" where
  "startsWith s p = (take (length p) s = p)"

fun includes_str :: "jsstring \<Rightarrow> jsstring \<Rightarrow> bool" where
  "includes_str [] p = (p = [])"
| "includes_str (x # xs) p = (startsWith (x # xs) p \<or> includes_str xs p)"

definition is_line_terminator :: "nat \<Rightarrow> bool" where
  "is_line_terminator c = (c = 10 \<or> c = 13 \<or> c = 0x2028 \<or> c = 0x2029)"

definition is_space :: "nat \<Rightarrow> bool" where
  "is_space c =
     (c = 9 \<or> c = 10 \<or> c = 11 \<or> c = 12 \<or> c = 13 \<or> c = 32 \<or> c = 0xA0 \<or> c = 0x1680
      \<or> (0x2000 \<le> c \<and> c \<le> 0x200A) \<or> c = 0x2028 \<or> c = 0x2029 \<or> c = 0x202F
      \<or> c = 0x205F \<or> c = 0x3000 \<or> c = 0xFEFF)"

definition trim :: "jsstring \<Rightarrow> jsstring" where
  "trim s = rev (dropWhile is_space (rev (dropWhile is_space s)))"

definition no_line_terminator :: "jsstring \<Rightarrow> bool" where
  "no_line_terminator s = list_all (\<lambda>c. \<not> is_line_terminator c) s"

text \<open>\<open>s.replace(/X$/, "")\<close> for a single unit \<open>X\<close>.\<close>

definition remove_final :: "nat \<Rightarrow> jsstring \<Rightarrow> jsstring" where
  "remove_final c s = (if s = [] then s else if last s = c then butlast s else s)"

subsection \<open>The command patterns\<close>

text \<open>The class \<open>[\<dots>:]\<close> of the two colons, full-width and ASCII, then the rest.\<close>

definition after_colon :: "jsstring \<Rightarrow> jsstring option" where
  "after_colon s =
     (case s of
        [] \<Rightarrow> None
      | c # rest \<Rightarrow> if c = 0xFF1A \<or> c = 58 then Some rest else None)"

text \<open>
  \<open>/^PREFIX[\<dots>:]\s*(.+)$/\<close>, returning group 1. The greedy \<open>\s*\<close> takes the whole
  leading run of white space; when nothing is left, backtracking gives the last unit
  of the run to the group, which \<open>.\<close> accepts unless it is a line terminator.
\<close>

definition match_argument :: "jsstring \<Rightarrow> jsstring \<Rightarrow> jsstring option" where
  "match_argument prefix message =
     (if \<not> startsWith message prefix then None
      else case after_colon (drop (length prefix) message) of
             None \<Rightarrow> None
           | Some rest \<Rightarrow>
               (let ws = takeWhile is_space rest; rem = dropWhile is_space rest
                in if rem \<noteq> [] then (if no_line_terminator rem then Some rem else None)
                   else if ws = [] then None
                   else if is_line_terminator (last ws) then None
                   else Some [last ws]))"

text \<open>
  \<open>/^PREFIX[\<dots>:]\s*(\d{1,2}:\d{2})$/\<close>: after the white space exactly \<open>d:dd\<close> or
  \<open>dd:dd\<close> must remain.
\<close>

definition match_time_argument :: "jsstring \<Rightarrow> jsstring \<Rightarrow> jsstring option" where
  "match_time_argument prefix message =
     (if \<not> startsWith message prefix then None
      else case after_colon (drop (length prefix) message) of
             None \<Rightarrow> None
           | Some rest \<Rightarrow>
               (case dropWhile is_space rest of
                  [h, c, m1, m2] \<Rightarrow>
                    if is_digit h \<and> c = 58 \<and> is_digit m1 \<and> is_digit m2
                    then Some [h, c, m1, m2] else None
                | [h1, h2, c, m1, m2] \<Rightarrow>
                    if is_digit h1 \<and> is_digit h2 \<and> c = 58 \<and> is_digit m1 \<and> is_digit m2
                    then Some [h1, h2, c, m1, m2] else None
                | _ \<Rightarrow> None))"

text \<open>
  \<open>(.+?)\s+(.+)$\<close> on what follows the leading white space: the lazy first group grows
  from one unit, the greedy \<open>\s+\<close> shrinks from the whole run of white space after it, and
  the last group must reach the end of the string. The candidates are listed in the order
  in which backtracking tries them.
\<close>

definition splits :: "jsstring \<Rightarrow> (jsstring \<times> jsstring) list" where
  "splits r =
     concat (map (\<lambda>i. map (\<lambda>w. (take i r, drop (i + w) r))
                         (rev [1 ..< Suc (length (takeWhile is_space (drop i r)))]))
                 [1 ..< Suc (length r)])"

definition valid_split :: "jsstring \<times> jsstring \<Rightarrow> bool" where
  "valid_split p = (no_line_terminator (fst p) \<and> snd p \<noteq> [] \<and> no_line_terminator (snd p))"

fun first_some :: "('a \<Rightarrow> 'b option) \<Rightarrow> 'a list \<Rightarrow> 'b option" where
  "first_some g [] = None"
| "first_some g (x # xs) = (case g x of Some y \<Rightarrow> Some y | None \<Rightarrow> first_some g xs)"

text \<open>
  \<open>/^PREFIX[\<dots>:]\s*(.+?)\s+(.+)$/\<close>, returning groups 1 and 2; the greedy \<open>\s*\<close> gives
  back one unit at a time.
\<close>

definition match_city_district :: "jsstring \<Rightarrow> jsstring \<Rightarrow> (jsstring \<times> jsstring) option" where
  "match_city_district prefix message =
     (if \<not> startsWith message prefix then None
      else case after_colon (drop (length prefix) message) of
             None \<Rightarrow> None
           | Some rest \<Rightarrow>
               first_some (\<lambda>k. find valid_split (splits (drop k rest)))
                 (rev [0 ..< Suc (length (takeWhile is_space rest))]))"

subsection \<open>Replies\<close>

text \<open>
  \<^verbatim>\<open>formatCommandResponse(title, content, icon, type, customStyles)\<close> renders a card. The
  card is kept as its title, its type and what its text says; the icon and the styles
  are left out.
\<close>

datatype card_type = InfoCard | SuccessCard | WarningCard | ErrorCard

datatype card_text =
    SetLocationFormat
  | LocationNotFound jsstring jsstring "jsstring list"
  | LocationSet jsstring jsstring
  | LocationSetFailed
  | LocationSetError js_error
  | HotCities "jsstring list"
  | CityNotFound jsstring
  | Districts jsstring "jsstring list"
  | CityDetailFormat
  | ProvinceNotFound jsstring "jsstring list"
  | ProvinceNoData jsstring
  | ProvinceCities jsstring "jsstring list"
  | ProvinceFormat
  | CurrentLocation jsstring
  | PushTimeFormat
  | PushTimeSet jsstring
  | PushTimeSetFailed
  | PushTimeInfo stored
  | Help
  | Unrecognized

record card =
  card_title :: jsstring
  card_text :: card_text
  card_type :: card_type

definition formatCommandResponse :: "jsstring \<Rightarrow> card_text \<Rightarrow> card_type \<Rightarrow> card" where
  "formatCommandResponse title content type =
     \<lparr>card_title = title, card_text = content, card_type = type\<rparr>"

record reply =
  content :: card
  isHtml :: bool

definition cmd_set_location :: jsstring where
  "cmd_set_location = [0x8BBE, 0x7F6E, 0x5730, 0x533A]"

definition cmd_list_locations :: jsstring where
  "cmd_list_locations = [0x5730, 0x533A, 0x5217, 0x8868]"

definition cmd_city_detail :: jsstring where
  "cmd_city_detail = [0x67E5, 0x770B, 0x57CE, 0x5E02, 0x8BE6, 0x60C5]"

definition cmd_province :: jsstring where
  "cmd_province = [0x67E5, 0x770B, 0x57CE, 0x5E02]"

definition cmd_current_location :: jsstring where
  "cmd_current_location = [0x5F53, 0x524D, 0x5730, 0x533A]"

definition cmd_set_push_time :: jsstring where
  "cmd_set_push_time = [0x8BBE, 0x7F6E, 0x63A8, 0x9001, 0x65F6, 0x95F4]"

definition cmd_get_push_time :: jsstring where
  "cmd_get_push_time = [0x67E5, 0x770B, 0x63A8, 0x9001, 0x65F6, 0x95F4]"

definition cmd_help :: jsstring where
  "cmd_help = [0x5E2E, 0x52A9]"

definition title_format_error :: jsstring where
  "title_format_error = [0x683C, 0x5F0F, 0x9519, 0x8BEF]"

definition title_location_not_found :: jsstring where
  "title_location_not_found = [0x5730, 0x533A, 0x672A, 0x627E, 0x5230]"

definition title_location_set :: jsstring where
  "title_location_set = [0x5730, 0x533A, 0x8BBE, 0x7F6E, 0x6210, 0x529F]"

definition title_set_failed :: jsstring where
  "title_set_failed = [0x8BBE, 0x7F6E, 0x5931, 0x8D25]"

definition title_hot_cities :: jsstring where
  "title_hot_cities = [0x70ED, 0x95E8, 0x57CE, 0x5E02, 0x5217, 0x8868]"

definition title_city_not_found :: jsstring where
  "title_city_not_found = [0x57CE, 0x5E02, 0x672A, 0x627E, 0x5230]"

definition title_districts :: jsstring where
  "title_districts = [0x533A, 0x53BF, 0x5217, 0x8868]"

definition title_province_not_found :: jsstring where
  "title_province_not_found = [0x7701, 0x4EFD, 0x672A, 0x627E, 0x5230]"

definition title_no_data :: jsstring where
  "title_no_data = [0x6570, 0x636E, 0x672A, 0x627E, 0x5230]"

definition title_cities :: jsstring where
  "title_cities = [0x57CE, 0x5E02, 0x5217, 0x8868]"

definition title_current_location :: jsstring where
  "title_current_location = [0x5F53, 0x524D, 0x5730, 0x533A, 0x4FE1, 0x606F]"

definition title_push_time_set :: jsstring where
  "title_push_time_set = [0x63A8, 0x9001, 0x65F6, 0x95F4, 0x5DF2, 0x8BBE, 0x7F6E]"

definition title_push_time_info :: jsstring where
  "title_push_time_info = [0x63A8, 0x9001, 0x65F6, 0x95F4, 0x4FE1, 0x606F]"

definition title_help :: jsstring where
  "title_help = [0x4F7F, 0x7528, 0x5E2E, 0x52A9]"

definition title_unrecognized :: jsstring where
  "title_unrecognized = [0x672A, 0x8BC6, 0x522B, 0x7684, 0x547D, 0x4EE4]"

definition hot_cities :: "jsstring list" where
  "hot_cities =
     [[0x5317, 0x4EAC], [0x4E0A, 0x6D77], [0x5E7F, 0x5DDE], [0x6DF1, 0x5733], [0x5357, 0x4EAC],
      [0x676D, 0x5DDE], [0x91CD, 0x5E86], [0x6210, 0x90FD], [0x6B66, 0x6C49], [0x897F, 0x5B89],
      [0x82CF, 0x5DDE], [0x5929, 0x6D25], [0x957F, 0x6C99], [0x90D1, 0x5DDE], [0x9752, 0x5C9B]]"


subsection \<open>Directory listings\<close>

text \<open>\<open>Object.keys(getAllLocations())\<close> and \<open>locations[city] || {}\<close>.\<close>

definition getAllCities :: "directory \<Rightarrow> jsstring list" where
  "getAllCities locations = map fst locations"

definition getCityLocations :: "directory \<Rightarrow> jsstring \<Rightarrow> (jsstring \<times> entry) list" where
  "getCityLocations locations c =
     (case map_of locations c of None \<Rightarrow> [] | Some districts \<Rightarrow> districts)"

subsection \<open>The handlers\<close>

text \<open>
  The setters and the getter of the preference store are async wrappers: called without
  \<open>await\<close> they change the state and hand back a promise, which is truthy and whose
  \<open>name\<close> is undefined. So \<open>if (success)\<close> always takes its first branch, and the
  \<open>catch\<close> blocks are never entered by these calls. In \<^verbatim>\<open>handleSetLocation\<close> the
  test \<open>isLocationValid(city, district)\<close> stands before the \<open>try\<close>: an error thrown by
  its read of the directory leaves the handler.
\<close>

definition handleSetLocation ::
  "runtime \<Rightarrow> directory \<Rightarrow> jsstring \<Rightarrow> jsstring \<Rightarrow> world \<Rightarrow> (js_error + card) \<times> world" where
  "handleSetLocation rt locations message uid w =
     (case match_city_district cmd_set_location message of
        None \<Rightarrow> (Inr (formatCommandResponse title_format_error SetLocationFormat WarningCard), w)
      | Some (city0, district0) \<Rightarrow>
          (let c = remove_final 0x5E02 city0;
               d = remove_final 0x53BF (remove_final 0x533A district0)
           in case isLocationValid2 rt locations c d of
                Inl e \<Rightarrow> (Inl e, w)
              | Inr valid \<Rightarrow>
                  if \<not> valid
                  then (Inr (formatCommandResponse title_location_not_found
                               (LocationNotFound c d (take 10 (getAllCities locations))) WarningCard), w)
                  else
                    (case getLocationCode rt locations c d of
                       Inl e \<Rightarrow>
                         (Inr (formatCommandResponse title_set_failed (LocationSetError e) ErrorCard), w)
                     | Inr locationCode \<Rightarrow>
                         (let w1 = snd (setUserLocationPreference locations uid locationCode w);
                              success = True
                          in if success
                             then (Inr (formatCommandResponse title_location_set (LocationSet c d)
                                          SuccessCard), w1)
                             else (Inr (formatCommandResponse title_set_failed LocationSetFailed
                                          ErrorCard), w1)))))"

definition handleListLocations :: "directory \<Rightarrow> card" where
  "handleListLocations locations =
     (let cities = getAllCities locations;
          topCities = filter (\<lambda>c. c \<in> set cities) hot_cities
      in formatCommandResponse title_hot_cities (HotCities topCities) InfoCard)"

definition handleCityDetail :: "directory \<Rightarrow> jsstring \<Rightarrow> card" where
  "handleCityDetail locations cityName =
     (case find (\<lambda>c. c = cityName \<or> includes_str c cityName) (getAllCities locations) of
        None \<Rightarrow> formatCommandResponse title_city_not_found (CityNotFound cityName) WarningCard
      | Some c \<Rightarrow>
          if c = [] then formatCommandResponse title_city_not_found (CityNotFound cityName) WarningCard
          else formatCommandResponse (c @ title_districts)
                 (Districts c (map fst (getCityLocations locations c))) InfoCard)"

text \<open>
  The table of \<^verbatim>\<open>handleProvinceDetail\<close>: each province maps to a filter on the list of
  cities, either \<open>c === name\<close> or \<open>names.some((city) => c.includes(city))\<close>.
\<close>

datatype province_filter = Exact jsstring | Includes "jsstring list"

definition provinces :: "(jsstring \<times> province_filter) list" where
  "provinces =
     [([0x5317, 0x4EAC], Exact [0x5317, 0x4EAC]),
      ([0x4E0A, 0x6D77], Exact [0x4E0A, 0x6D77]),
      ([0x5929, 0x6D25], Exact [0x5929, 0x6D25]),
      ([0x91CD, 0x5E86], Exact [0x91CD, 0x5E86]),
      ([0x6CB3, 0x5317], Includes
        [[0x77F3, 0x5BB6, 0x5E84], [0x5510, 0x5C71], [0x79E6, 0x7687, 0x5C9B],
         [0x90AF, 0x90F8], [0x90A2, 0x53F0], [0x4FDD, 0x5B9A], [0x5F20, 0x5BB6, 0x53E3],
         [0x627F, 0x5FB7], [0x6CA7, 0x5DDE], [0x5ECA, 0x574A], [0x8861, 0x6C34]]),
      ([0x5C71, 0x897F], Includes
        [[0x592A, 0x539F], [0x5927, 0x540C], [0x9633, 0x6CC9], [0x957F, 0x6CBB],
         [0x664B, 0x57CE], [0x6714, 0x5DDE], [0x664B, 0x4E2D], [0x8FD0, 0x57CE],
         [0x5FFB, 0x5DDE], [0x4E34, 0x6C7E], [0x5415, 0x6881]]),
      ([0x8FBD, 0x5B81], Includes
        [[0x6C88, 0x9633], [0x5927, 0x8FDE], [0x978D, 0x5C71], [0x629A, 0x987A],
         [0x672C, 0x6EAA], [0x4E39, 0x4E1C], [0x9526, 0x5DDE], [0x8425, 0x53E3],
         [0x961C, 0x65B0], [0x8FBD, 0x9633], [0x76D8, 0x9526], [0x94C1, 0x5CAD],
         [0x671D, 0x9633], [0x846B, 0x82A6, 0x5C9B]]),
      ([0x5409, 0x6797], Includes
        [[0x957F, 0x6625], [0x5409, 0x6797], [0x56DB, 0x5E73], [0x8FBD, 0x6E90],
         [0x901A, 0x5316], [0x767D, 0x5C71], [0x677E, 0x539F], [0x767D, 0x57CE]]),
      ([0x9ED1, 0x9F99, 0x6C5F], Includes
        [[0x54C8, 0x5C14, 0x6EE8], [0x9F50, 0x9F50, 0x54C8, 0x5C14], [0x9E21, 0x897F],
         [0x9E64, 0x5C97], [0x53CC, 0x9E2D, 0x5C71], [0x5927, 0x5E86], [0x4F0A, 0x6625],
         [0x4F73, 0x6728, 0x65AF], [0x4E03, 0x53F0, 0x6CB3], [0x7261, 0x4E39, 0x6C5F],
         [0x9ED1, 0x6CB3], [0x7EE5, 0x5316]]),
      ([0x6C5F, 0x82CF], Includes
        [[0x5357, 0x4EAC], [0x65E0, 0x9521], [0x5F90, 0x5DDE], [0x5E38, 0x5DDE],
         [0x82CF, 0x5DDE], [0x5357, 0x901A], [0x8FDE, 0x4E91, 0x6E2F], [0x6DEE, 0x5B89],
         [0x76D0, 0x57CE], [0x626C, 0x5DDE], [0x9547, 0x6C5F], [0x6CF0, 0x5DDE],
         [0x5BBF, 0x8FC1]]),
      ([0x6D59, 0x6C5F], Includes
        [[0x676D, 0x5DDE], [0x5B81, 0x6CE2], [0x6E29, 0x5DDE], [0x5609, 0x5174],
         [0x6E56, 0x5DDE], [0x7ECD, 0x5174], [0x91D1, 0x534E], [0x8862, 0x5DDE],
         [0x821F, 0x5C71], [0x53F0, 0x5DDE], [0x4E3D, 0x6C34]]),
      ([0x5B89, 0x5FBD], Includes
        [[0x5408, 0x80A5], [0x829C, 0x6E56], [0x868C, 0x57E0], [0x6DEE, 0x5357],
         [0x9A6C, 0x978D, 0x5C71], [0x6DEE, 0x5317], [0x94DC, 0x9675], [0x5B89, 0x5E86],
         [0x9EC4, 0x5C71], [0x961C, 0x9633], [0x5BBF, 0x5DDE], [0x6EC1, 0x5DDE],
         [0x516D, 0x5B89], [0x5BA3, 0x57CE], [0x6C60, 0x5DDE], [0x4EB3, 0x5DDE]]),
      ([0x798F, 0x5EFA], Includes
        [[0x798F, 0x5DDE], [0x53A6, 0x95E8], [0x8386, 0x7530], [0x4E09, 0x660E],
         [0x6CC9, 0x5DDE], [0x6F33, 0x5DDE], [0x5357, 0x5E73], [0x9F99, 0x5CA9],
         [0x5B81, 0x5FB7]]),
      ([0x6C5F, 0x897F], Includes
        [[0x5357, 0x660C], [0x666F, 0x5FB7, 0x9547], [0x840D, 0x4E61], [0x4E5D, 0x6C5F],
         [0x65B0, 0x4F59], [0x9E70, 0x6F6D], [0x8D63, 0x5DDE], [0x5409, 0x5B89],
         [0x5B9C, 0x6625], [0x629A, 0x5DDE], [0x4E0A, 0x9976]]),
      ([0x5C71, 0x4E1C], Includes
        [[0x6D4E, 0x5357], [0x9752, 0x5C9B], [0x6DC4, 0x535A], [0x67A3, 0x5E84],
         [0x4E1C, 0x8425], [0x70DF, 0x53F0], [0x6F4D, 0x574A], [0x6D4E, 0x5B81],
         [0x6CF0, 0x5B89], [0x5A01, 0x6D77], [0x65E5, 0x7167], [0x4E34, 0x6C82],
         [0x5FB7, 0x5DDE], [0x804A, 0x57CE], [0x6EE8, 0x5DDE], [0x83CF, 0x6CFD]]),
      ([0x6CB3, 0x5357], Includes
        [[0x90D1, 0x5DDE], [0x5F00, 0x5C01], [0x6D1B, 0x9633], [0x5E73, 0x9876, 0x5C71],
         [0x5B89, 0x9633], [0x9E64, 0x58C1], [0x65B0, 0x4E61], [0x7126, 0x4F5C],
         [0x6FEE, 0x9633], [0x8BB8, 0x660C], [0x6F2F, 0x6CB3], [0x4E09, 0x95E8, 0x5CE1],
         [0x5357, 0x9633], [0x5546, 0x4E18], [0x4FE1, 0x9633], [0x5468, 0x53E3],
         [0x9A7B, 0x9A6C, 0x5E97], [0x6D4E, 0x6E90]]),
      ([0x6E56, 0x5317], Includes
        [[0x6B66, 0x6C49], [0x9EC4, 0x77F3], [0x5341, 0x5830], [0x5B9C, 0x660C],
         [0x8944, 0x9633], [0x9102, 0x5DDE], [0x8346, 0x95E8], [0x5B5D, 0x611F],
         [0x8346, 0x5DDE], [0x9EC4, 0x5188], [0x54B8, 0x5B81], [0x968F, 0x5DDE]]),
      ([0x6E56, 0x5357], Includes
        [[0x957F, 0x6C99], [0x682A, 0x6D32], [0x6E58, 0x6F6D], [0x8861, 0x9633],
         [0x90B5, 0x9633], [0x5CB3, 0x9633], [0x5E38, 0x5FB7], [0x5F20, 0x5BB6, 0x754C],
         [0x76CA, 0x9633], [0x90F4, 0x5DDE], [0x6C38, 0x5DDE], [0x6000, 0x5316],
         [0x5A04, 0x5E95]]),
      ([0x5E7F, 0x4E1C], Includes
        [[0x5E7F, 0x5DDE], [0x97F6, 0x5173], [0x6DF1, 0x5733], [0x73E0, 0x6D77],
         [0x6C55, 0x5934], [0x4F5B, 0x5C71], [0x6C5F, 0x95E8], [0x6E5B, 0x6C5F],
         [0x8302, 0x540D], [0x8087, 0x5E86], [0x60E0, 0x5DDE], [0x6885, 0x5DDE],
         [0x6C55, 0x5C3E], [0x6CB3, 0x6E90], [0x9633, 0x6C5F], [0x6E05, 0x8FDC],
         [0x4E1C, 0x839E], [0x4E2D, 0x5C71], [0x6F6E, 0x5DDE], [0x63ED, 0x9633],
         [0x4E91, 0x6D6E]]),
      ([0x5E7F, 0x897F], Includes
        [[0x5357, 0x5B81], [0x67F3, 0x5DDE], [0x6842, 0x6797], [0x68A7, 0x5DDE],
         [0x5317, 0x6D77], [0x9632, 0x57CE, 0x6E2F], [0x94A6, 0x5DDE], [0x8D35, 0x6E2F],
         [0x7389, 0x6797], [0x767E, 0x8272], [0x8D3A, 0x5DDE], [0x6CB3, 0x6C60],
         [0x6765, 0x5BBE], [0x5D07, 0x5DE6]]),
      ([0x6D77, 0x5357], Includes
        [[0x6D77, 0x53E3], [0x4E09, 0x4E9A], [0x4E09, 0x6C99], [0x510B, 0x5DDE]]),
      ([0x56DB, 0x5DDD], Includes
        [[0x6210, 0x90FD], [0x81EA, 0x8D21], [0x6500, 0x679D, 0x82B1], [0x6CF8, 0x5DDE],
         [0x5FB7, 0x9633], [0x7EF5, 0x9633], [0x5E7F, 0x5143], [0x9042, 0x5B81],
         [0x5185, 0x6C5F], [0x4E50, 0x5C71], [0x5357, 0x5145], [0x7709, 0x5C71],
         [0x5B9C, 0x5BBE], [0x5E7F, 0x5B89], [0x8FBE, 0x5DDE], [0x96C5, 0x5B89],
         [0x5DF4, 0x4E2D], [0x8D44, 0x9633]]),
      ([0x8D35, 0x5DDE], Includes
        [[0x8D35, 0x9633], [0x516D, 0x76D8, 0x6C34], [0x9075, 0x4E49], [0x5B89, 0x987A],
         [0x6BD5, 0x8282], [0x94DC, 0x4EC1]]),
      ([0x4E91, 0x5357], Includes
        [[0x6606, 0x660E], [0x66F2, 0x9756], [0x7389, 0x6EAA], [0x4FDD, 0x5C71],
         [0x662D, 0x901A], [0x4E3D, 0x6C5F], [0x666E, 0x6D31], [0x4E34, 0x6CA7]]),
      ([0x897F, 0x85CF], Includes
        [[0x62C9, 0x8428], [0x65E5, 0x5580, 0x5219], [0x660C, 0x90FD], [0x6797, 0x829D],
         [0x5C71, 0x5357], [0x90A3, 0x66F2], [0x963F, 0x91CC]]),
      ([0x9655, 0x897F], Includes
        [[0x897F, 0x5B89], [0x94DC, 0x5DDD], [0x5B9D, 0x9E21], [0x54B8, 0x9633],
         [0x6E2D, 0x5357], [0x5EF6, 0x5B89], [0x6C49, 0x4E2D], [0x6986, 0x6797],
         [0x5B89, 0x5EB7], [0x5546, 0x6D1B]]),
      ([0x7518, 0x8083], Includes
        [[0x5170, 0x5DDE], [0x5609, 0x5CEA, 0x5173], [0x91D1, 0x660C], [0x767D, 0x94F6],
         [0x5929, 0x6C34], [0x6B66, 0x5A01], [0x5F20, 0x6396], [0x5E73, 0x51C9],
         [0x9152, 0x6CC9], [0x5E86, 0x9633], [0x5B9A, 0x897F], [0x9647, 0x5357]]),
      ([0x9752, 0x6D77], Includes
        [[0x897F, 0x5B81], [0x6D77, 0x4E1C]]),
      ([0x5B81, 0x590F], Includes
        [[0x94F6, 0x5DDD], [0x77F3, 0x5634, 0x5C71], [0x5434, 0x5FE0], [0x56FA, 0x539F],
         [0x4E2D, 0x536B]]),
      ([0x65B0, 0x7586], Includes
        [[0x4E4C, 0x9C81, 0x6728, 0x9F50], [0x514B, 0x62C9, 0x739B, 0x4F9D],
         [0x5410, 0x9C81, 0x756A], [0x54C8, 0x5BC6]]),
      ([0x9999, 0x6E2F], Includes
        [[0x9999, 0x6E2F]]),
      ([0x6FB3, 0x95E8], Includes
        [[0x6FB3, 0x95E8]]),
      ([0x53F0, 0x6E7E], Includes
        [[0x53F0, 0x6E7E]])]"

fun apply_filter :: "province_filter \<Rightarrow> jsstring list \<Rightarrow> jsstring list" where
  "apply_filter (Exact n) cities = filter (\<lambda>c. c = n) cities"
| "apply_filter (Includes ns) cities = filter (\<lambda>c. list_ex (\<lambda>n. includes_str c n) ns) cities"

text \<open>
  \<open>provinces[provinceName]\<close> is a property read on an object literal, so a name that is
  no key of the table still finds the members the object inherits from
  \<open>Object.prototype\<close>. All of them are truthy. Called as \<open>provinces[name](allCities)\<close>,
  \<open>constructor\<close> returns its argument, the list of cities; each of the others either
  throws a \<open>TypeError\<close> itself or returns a value without \<open>map\<close> (a string, a boolean,
  the table, undefined), on which the handler throws a \<open>TypeError\<close>.
\<close>

datatype province_property =
    OwnFilter province_filter
  | ObjectConstructor
  | OtherInherited
  | Undefined

definition object_prototype_others :: "jsstring list" where
  "object_prototype_others =
     [js ''__defineGetter__'', js ''__defineSetter__'', js ''hasOwnProperty'',
      js ''__lookupGetter__'', js ''__lookupSetter__'', js ''isPrototypeOf'',
      js ''propertyIsEnumerable'', js ''toString'', js ''valueOf'', js ''__proto__'',
      js ''toLocaleString'']"

definition provinces_get :: "jsstring \<Rightarrow> province_property" where
  "provinces_get provinceName =
     (case map_of provinces provinceName of
        Some flt \<Rightarrow> OwnFilter flt
      | None \<Rightarrow>
          if provinceName = js ''constructor'' then ObjectConstructor
          else if provinceName \<in> set object_prototype_others then OtherInherited
          else Undefined)"

definition province_card :: "jsstring \<Rightarrow> jsstring list \<Rightarrow> card" where
  "province_card provinceName provinceCities =
     (if length provinceCities = 0
      then formatCommandResponse title_no_data (ProvinceNoData provinceName) WarningCard
      else formatCommandResponse (provinceName @ title_cities)
             (ProvinceCities provinceName provinceCities) InfoCard)"

definition handleProvinceDetail :: "directory \<Rightarrow> jsstring \<Rightarrow> js_error + card" where
  "handleProvinceDetail locations provinceName0 =
     (let resolved =
            (case provinces_get provinceName0 of
               Undefined \<Rightarrow>
                 find (\<lambda>p. includes_str p provinceName0 \<or> includes_str provinceName0 p) (map fst provinces)
             | _ \<Rightarrow> Some provinceName0)
      in case resolved of
           None \<Rightarrow>
             Inr (formatCommandResponse title_province_not_found
                    (ProvinceNotFound provinceName0 (map fst provinces)) WarningCard)
         | Some provinceName \<Rightarrow>
             (let allCities = getAllCities locations
              in case provinces_get provinceName of
                   OwnFilter flt \<Rightarrow> Inr (province_card provinceName (apply_filter flt allCities))
                 | ObjectConstructor \<Rightarrow> Inr (province_card provinceName allCities)
                 | OtherInherited \<Rightarrow> Inl TypeError
                 | Undefined \<Rightarrow> Inl TypeError))"

definition handleGetCurrentLocation ::
  "runtime \<Rightarrow> jsstring option \<Rightarrow> directory \<Rightarrow> jsstring \<Rightarrow> world \<Rightarrow> card \<times> world" where
  "handleGetCurrentLocation rt env_LOCATION locations uid w =
     (let w1 = snd (getUserLocationPreference rt env_LOCATION locations uid w)
      in (formatCommandResponse title_current_location (CurrentLocation (to_string None)) InfoCard, w1))"

definition handleSetPushTime :: "jsstring \<Rightarrow> jsstring \<Rightarrow> world \<Rightarrow> card \<times> world" where
  "handleSetPushTime message uid w =
     (case match_time_argument cmd_set_push_time message of
        None \<Rightarrow> (formatCommandResponse title_format_error PushTimeFormat WarningCard, w)
      | Some time \<Rightarrow>
          (let w1 = snd (updatePushTime uid time w);
               success = True
           in if success
              then (formatCommandResponse title_push_time_set (PushTimeSet time) SuccessCard, w1)
              else (formatCommandResponse title_set_failed PushTimeSetFailed ErrorCard, w1)))"

text \<open>
  \<^verbatim>\<open>handleGetPushTime\<close> reads the file itself, without creating it; every failure
  of the read keeps the default \<open>"20:00"\<close>. The card shows the value found for
  \<open>data.users[uid].pushTime\<close>.
\<close>

definition handleGetPushTime :: "jsstring \<Rightarrow> world \<Rightarrow> card" where
  "handleGetPushTime uid w =
     (let time = (case visible_pushTime w uid of
                    None \<Rightarrow> Str (js ''20:00'')
                  | Some v \<Rightarrow> if truthy (Some v) then v else Str (js ''20:00''))
      in formatCommandResponse title_push_time_info (PushTimeInfo time) InfoCard)"

definition handleHelp :: card where
  "handleHelp = formatCommandResponse title_help Help InfoCard"

text \<open>\<^verbatim>\<open>handleMessage(message, uid)\<close>: the chain of tests, in the order of the source.\<close>

definition handleMessage ::
  "runtime \<Rightarrow> jsstring option \<Rightarrow> directory \<Rightarrow> jsstring \<Rightarrow> jsstring \<Rightarrow> world
     \<Rightarrow> (js_error + reply) \<times> world" where
  "handleMessage rt env_LOCATION locations message uid w =
     (if startsWith message cmd_set_location then
        (let r = handleSetLocation rt locations message uid w
         in case fst r of
              Inl e \<Rightarrow> (Inl e, snd r)
            | Inr c \<Rightarrow> (Inr \<lparr>content = c, isHtml = True\<rparr>, snd r))
      else if message = cmd_list_locations then
        (Inr \<lparr>content = handleListLocations locations, isHtml = True\<rparr>, w)
      else if startsWith message cmd_city_detail then
        (case match_argument cmd_city_detail message of
           Some arg \<Rightarrow>
             (Inr \<lparr>content = handleCityDetail locations (trim arg), isHtml = True\<rparr>, w)
         | None \<Rightarrow>
             (Inr \<lparr>content = formatCommandResponse title_format_error CityDetailFormat WarningCard,
                   isHtml = True\<rparr>, w))
      else if startsWith message cmd_province then
        (case match_argument cmd_province message of
           Some arg \<Rightarrow>
             (case handleProvinceDetail locations (trim arg) of
                Inl e \<Rightarrow> (Inl e, w)
              | Inr c \<Rightarrow> (Inr \<lparr>content = c, isHtml = True\<rparr>, w))
         | None \<Rightarrow>
             (Inr \<lparr>content = formatCommandResponse title_format_error ProvinceFormat WarningCard,
                   isHtml = True\<rparr>, w))
      else if message = cmd_current_location then
        (let r = handleGetCurrentLocation rt env_LOCATION locations uid w
         in (Inr \<lparr>content = fst r, isHtml = True\<rparr>, snd r))
      else if startsWith message cmd_set_push_time then
        (let r = handleSetPushTime message uid w
         in (Inr \<lparr>content = fst r, isHtml = True\<rparr>, snd r))
      else if message = cmd_get_push_time then
        (Inr \<lparr>content = handleGetPushTime uid w, isHtml = True\<rparr>, w)
      else if message = cmd_help then
        (Inr \<lparr>content = handleHelp, isHtml = True\<rparr>, w)
      else
        (Inr \<lparr>content = formatCommandResponse title_unrecognized Unrecognized WarningCard,
              isHtml = True\<rparr>, w))"

section \<open>Properties\<close>

subsection \<open>Extracting tomorrow's entry\<close>

text \<open>
  C6. For every forecast whose \<open>daily\<close> array is missing or has fewer than two entries
  (and for a null forecast), extracting tomorrow's entry fails with the domain error
  "cannot get tomorrow's weather data" and returns no value; for every forecast with at
  least two daily entries it returns exactly the entry at index 1.
\<close>

theorem getTomorrowWeather_spec:
  "((weatherData = None
      \<or> (\<exists>w. weatherData = Some w \<and> daily w = None)
      \<or> (\<exists>w ds. weatherData = Some w \<and> daily w = Some ds \<and> length ds < 2))
     \<longrightarrow> getTomorrowWeather weatherData = Inl (Error msg_no_tomorrow))
   \<and> (\<forall>w ds. weatherData = Some w \<and> daily w = Some ds \<and> 2 \<le> length ds
        \<longrightarrow> getTomorrowWeather weatherData = Inr (ds ! 1) \<and> ds ! 1 = hd (tl ds))"
proof (intro conjI impI allI)
  assume "weatherData = None
      \<or> (\<exists>w. weatherData = Some w \<and> daily w = None)
      \<or> (\<exists>w ds. weatherData = Some w \<and> daily w = Some ds \<and> length ds < 2)"
  then show "getTomorrowWeather weatherData = Inl (Error msg_no_tomorrow)"
    by (auto simp: getTomorrowWeather_def)
next
  fix w :: "'a weather_data" and ds :: "'a list"
  assume h: "weatherData = Some w \<and> daily w = Some ds \<and> 2 \<le> length ds"
  then show "getTomorrowWeather weatherData = Inr (ds ! 1)"
    by (simp add: getTomorrowWeather_def)
  from h obtain x y zs where "ds = x # y # zs"
    by (cases ds; cases "tl ds") auto
  then show "ds ! 1 = hd (tl ds)" by simp
qed

theorem getTomorrowWeather_spec_witness:
  "getTomorrowWeather (Some \<lparr>daily = Some [10, 20, 30 :: nat], location = None, locationName = None\<rparr>)
     = Inr 20
   \<and> getTomorrowWeather (Some \<lparr>daily = Some [10 :: nat], location = None, locationName = None\<rparr>)
     = Inl (Error msg_no_tomorrow)
   \<and> getTomorrowWeather (None :: nat weather_data option) = Inl (Error msg_no_tomorrow)"
  using getTomorrowWeather_spec
      [of "Some \<lparr>daily = Some [10, 20, 30 :: nat], location = None, locationName = None\<rparr>"]
    getTomorrowWeather_spec
      [of "Some \<lparr>daily = Some [10 :: nat], location = None, locationName = None\<rparr>"]
    getTomorrowWeather_spec [of "None :: nat weather_data option"]
  by simp

subsection \<open>Push time: normalisation and validation\<close>

lemma pad2_digits: "b \<le> 9 \<Longrightarrow> pad2 (a * 10 + b) = [48 + a, 48 + b]"
  by (simp add: pad2_def)

lemma pad2_split: "\<exists>x y. pad2 n = [48 + x, 48 + y] \<and> y \<le> 9 \<and> n = 10 * x + y"
  unfolding pad2_def by (intro exI[of _ "n div 10"] exI[of _ "n mod 10"]) simp

lemma timePattern_clock:
  "timePattern s \<longleftrightarrow> (\<exists>h m. h < 24 \<and> m < 60 \<and> s = pad2 h @ [58] @ pad2 m)"
proof
  assume "timePattern s"
  then obtain h1 h2 m1 m2 where s: "s = [h1, h2, 58, m1, m2]"
    and hh: "((h1 = 48 \<or> h1 = 49) \<and> is_digit h2) \<or> (h1 = 50 \<and> 48 \<le> h2 \<and> h2 \<le> 51)"
    and mm: "48 \<le> m1" "m1 \<le> 53" "is_digit m2"
    by (auto simp: timePattern_def split: list.splits)
  define a b c d where "a = h1 - 48" and "b = h2 - 48" and "c = m1 - 48" and "d = m2 - 48"
  from hh have ab: "h1 = 48 + a" "h2 = 48 + b" "b \<le> 9" "a * 10 + b < 24"
    unfolding a_def b_def is_digit_def by auto
  from mm have cd: "m1 = 48 + c" "m2 = 48 + d" "d \<le> 9" "c * 10 + d < 60"
    unfolding c_def d_def is_digit_def by auto
  have "s = pad2 (a * 10 + b) @ [58] @ pad2 (c * 10 + d)"
    using s ab cd by (simp add: pad2_digits)
  with ab cd show "\<exists>h m. h < 24 \<and> m < 60 \<and> s = pad2 h @ [58] @ pad2 m" by blast
next
  assume "\<exists>h m. h < 24 \<and> m < 60 \<and> s = pad2 h @ [58] @ pad2 m"
  then obtain h m where hm: "h < 24" "m < 60" and s: "s = pad2 h @ [58] @ pad2 m" by blast
  obtain x y where h: "pad2 h = [48 + x, 48 + y]" "y \<le> 9" "h = 10 * x + y"
    using pad2_split by blast
  obtain u v where m: "pad2 m = [48 + u, 48 + v]" "v \<le> 9" "m = 10 * u + v"
    using pad2_split by blast
  from hm h m have "x \<le> 2" "x = 2 \<longrightarrow> y \<le> 3" "u \<le> 5" by auto
  with h m show "timePattern s"
    unfolding s by (auto simp: timePattern_def is_digit_def)
qed

lemma formattedTime_single:
  "is_digit h \<Longrightarrow> 48 \<le> m1 \<Longrightarrow> m1 \<le> 53 \<Longrightarrow> is_digit m2 \<Longrightarrow>
     formattedTime [h, 58, m1, m2] = [48, h, 58, m1, m2] \<and> timePattern [48, h, 58, m1, m2]"
  by (simp add: formattedTime_def singleDigitMatch_def timePattern_def)

lemma ensure_not_Missing [simp]: "ensurePreferenceFileExists f \<noteq> Missing"
  by (simp add: ensurePreferenceFileExists_def split: pref_file.splits)

lemma ensure_existing: "f \<noteq> Missing \<Longrightarrow> ensurePreferenceFileExists f = f"
  by (simp add: ensurePreferenceFileExists_def split: pref_file.splits)

lemma ensure_cases:
  "ensurePreferenceFileExists f = (if f = Missing then Doc \<lparr>users = Some Map.empty\<rparr> else f)"
  by (simp add: ensurePreferenceFileExists_def split: pref_file.splits)

lemma withErrorHandling_ErrorObject:
  "withErrorHandling r = ErrorObject e \<longleftrightarrow> r = Inl e"
  by (cases r) (auto simp: withErrorHandling_def)

lemma withErrorHandling_Value:
  "withErrorHandling r = Value v \<longleftrightarrow> r = Inr v"
  by (cases r) (auto simp: withErrorHandling_def)

lemma updatePushTime_fn_ok:
  assumes "timePattern (formattedTime time)"
    and "ensurePreferenceFileExists (disk w) = Doc data" and "users data = Some us"
  shows "updatePushTime_fn uid time w
     = (Inr True,
        write_prop (w\<lparr>disk := Doc data\<rparr>) data us uid (or_new_record (users_get us uid))
          (\<lambda>u. u\<lparr>pushTime := Some (Str (formattedTime time))\<rparr>))"
  using assms by (simp add: updatePushTime_fn_def Let_def)

lemma updatePushTime_fn_Inr:
  assumes "fst (updatePushTime_fn uid time w) = Inr b"
  shows "timePattern (formattedTime time)
     \<and> (\<exists>data us. ensurePreferenceFileExists (disk w) = Doc data \<and> users data = Some us)"
  using assms
  by (auto simp: updatePushTime_fn_def Let_def split: if_splits pref_file.splits option.splits)

text \<open>
  C3. A successful call does not persist the push time for every uid. Let the uid be the
  name of a member of \<open>Object.prototype\<close> (\<open>toString\<close>, say) without a record of its own
  in the file, and the time a valid one. Then \<^verbatim>\<open>updatePushTime\<close> resolves to
  \<open>true\<close>, the file is as \<open>ensurePreferenceFileExists\<close> found or made it, still without
  a record for the uid, and the normalised time is a property of the member, in the
  memory of the process: \<open>data.users[uid]\<close> found the member, so no record was created,
  and \<open>JSON.stringify\<close> wrote the document without the assignment.
\<close>

theorem updatePushTime_inherited_uid_not_persisted:
  assumes "uid \<in> set object_prototype_names"
    and "stored_user (disk w) uid = None"
    and "timePattern (formattedTime time)"
    and "disk w = Missing \<or> (\<exists>data us. disk w = Doc data \<and> users data = Some us)"
  shows "fst (updatePushTime uid time w) = Value True
     \<and> disk (snd (updatePushTime uid time w)) = ensurePreferenceFileExists (disk w)
     \<and> stored_user (disk (snd (updatePushTime uid time w))) uid = None
     \<and> pushTime (leaked (snd (updatePushTime uid time w)) uid) = Some (Str (formattedTime time))"
proof -
  from assms(4) obtain data us where d: "ensurePreferenceFileExists (disk w) = Doc data" "users data = Some us"
    by (auto simp: ensure_cases)
  with assms(2) have n: "us uid = None"
    by (auto simp: stored_user_def ensure_cases split: if_splits)
  with assms(1) have r: "or_new_record (users_get us uid) = Member uid"
    by (simp add: users_get_def or_new_record_def)
  from d n have s: "stored_user (Doc data) uid = None" by (simp add: stored_user_def)
  show ?thesis
    using d s
    by (simp add: updatePushTime_def Let_def updatePushTime_fn_ok [OF assms(3) d] r write_prop_def
        withErrorHandling_def)
qed

theorem updatePushTime_inherited_uid_not_persisted_witness:
  "fst (updatePushTime (js ''toString'') (js ''9:30'') (pristine u1_doc)) = Value True
   \<and> disk (snd (updatePushTime (js ''toString'') (js ''9:30'') (pristine u1_doc))) = u1_doc
   \<and> stored_user (disk (snd (updatePushTime (js ''toString'') (js ''9:30'') (pristine u1_doc))))
        (js ''toString'') = None
   \<and> pushTime (leaked (snd (updatePushTime (js ''toString'') (js ''9:30'') (pristine u1_doc)))
        (js ''toString'')) = Some (Str (js ''09:30''))"
  using updatePushTime_inherited_uid_not_persisted
    [of "js ''toString''" "pristine u1_doc" "js ''9:30''"]
  by (simp add: object_prototype_names_def pristine_def u1_doc_def stored_user_def
      formattedTime_def singleDigitMatch_def timePattern_def is_digit_def
      ensurePreferenceFileExists_def js_def)

text \<open>
  For a uid that is no such name, or that has a record in the file, the call does what is
  asked of it: a time \<open>H:mm\<close> with a one-digit hour and valid minutes is stored as
  \<open>0H:mm\<close> (whenever the file is missing or holds a document with a \<open>users\<close> object,
  the call succeeds); after any successful call the stored push time of the user matches
  \<open>^([01]\d|2[0-3]):[0-5]\d$\<close>; and for every uid and every string whose normalised
  form does not match, the call resolves to a \<open>ValidationError\<close> object and not to
  \<open>true\<close>.
\<close>

lemma updatePushTime_plain_uid:
  assumes p: "uid \<notin> set object_prototype_names \<or> stored_user (disk w) uid \<noteq> None"
  shows "(is_digit h \<and> 48 \<le> m1 \<and> m1 \<le> 53 \<and> is_digit m2
      \<and> (disk w = Missing \<or> (\<exists>data us. disk w = Doc data \<and> users data = Some us))
     \<longrightarrow> fst (updatePushTime uid [h, 58, m1, m2] w) = Value True
         \<and> stored_pushTime (disk (snd (updatePushTime uid [h, 58, m1, m2] w))) uid
             = Some (Str [48, h, 58, m1, m2]))
   \<and> (fst (updatePushTime uid time w) = Value True
     \<longrightarrow> (\<exists>s. stored_pushTime (disk (snd (updatePushTime uid time w))) uid = Some (Str s)
              \<and> timePattern s))
   \<and> (\<not> timePattern (formattedTime time)
     \<longrightarrow> fst (updatePushTime uid time w) = ErrorObject (ValidationError (msg_invalid_time @ time)))"
proof -
  have stored: "stored_pushTime (disk (snd (updatePushTime uid t w))) uid = Some (Str (formattedTime t))"
    if tp: "timePattern (formattedTime t)"
      and d: "ensurePreferenceFileExists (disk w) = Doc data" "users data = Some us" for t data us
  proof -
    have r: "or_new_record (users_get us uid) = OwnRecord (case us uid of None \<Rightarrow> no_props | Some u \<Rightarrow> u)"
    proof (cases "us uid")
      case None
      with d have "stored_user (disk w) uid = None"
        by (auto simp: stored_user_def ensure_cases split: if_splits pref_file.splits option.splits)
      with p have "uid \<notin> set object_prototype_names" by simp
      with None show ?thesis by (simp add: users_get_def or_new_record_def)
    next
      case (Some u)
      then show ?thesis by (simp add: users_get_def or_new_record_def)
    qed
    show ?thesis
      by (simp add: updatePushTime_def Let_def updatePushTime_fn_ok [OF tp d] r write_prop_def
          stored_pushTime_def stored_user_def)
  qed
  show ?thesis
  proof (intro conjI impI)
    assume h: "is_digit h \<and> 48 \<le> m1 \<and> m1 \<le> 53 \<and> is_digit m2
      \<and> (disk w = Missing \<or> (\<exists>data us. disk w = Doc data \<and> users data = Some us))"
    then have ft: "formattedTime [h, 58, m1, m2] = [48, h, 58, m1, m2]"
      and tp: "timePattern (formattedTime [h, 58, m1, m2])"
      using formattedTime_single [of h m1 m2] by auto
    from h obtain data us where d: "ensurePreferenceFileExists (disk w) = Doc data" "users data = Some us"
      by (auto simp: ensure_cases)
    show "fst (updatePushTime uid [h, 58, m1, m2] w) = Value True"
      by (simp add: updatePushTime_def Let_def updatePushTime_fn_ok [OF tp d] withErrorHandling_def)
    show "stored_pushTime (disk (snd (updatePushTime uid [h, 58, m1, m2] w))) uid
             = Some (Str [48, h, 58, m1, m2])"
      using stored [OF tp d] ft by simp
  next
    assume "fst (updatePushTime uid time w) = Value True"
    then have "fst (updatePushTime_fn uid time w) = Inr True"
      by (simp add: updatePushTime_def Let_def withErrorHandling_Value)
    then obtain data us where tp: "timePattern (formattedTime time)"
      and d: "ensurePreferenceFileExists (disk w) = Doc data" "users data = Some us"
      using updatePushTime_fn_Inr by blast
    from stored [OF tp d] tp
    show "\<exists>s. stored_pushTime (disk (snd (updatePushTime uid time w))) uid = Some (Str s) \<and> timePattern s"
      by blast
  next
    assume "\<not> timePattern (formattedTime time)"
    then show "fst (updatePushTime uid time w) = ErrorObject (ValidationError (msg_invalid_time @ time))"
      by (simp add: updatePushTime_def updatePushTime_fn_def withErrorHandling_def Let_def)
  qed
qed

subsection \<open>Validation failures and the file\<close>

lemma updatePushTime_fn_ValidationError:
  "fst (updatePushTime_fn uid time w) = Inl (ValidationError m)
     \<Longrightarrow> snd (updatePushTime_fn uid time w) = w\<lparr>disk := ensurePreferenceFileExists (disk w)\<rparr>"
  by (auto simp: updatePushTime_fn_def Let_def split: if_splits pref_file.splits option.splits)

lemma setUserLocationPreference_fn_ValidationError:
  "fst (setUserLocationPreference_fn locations uid c w) = Inl (ValidationError m)
     \<Longrightarrow> snd (setUserLocationPreference_fn locations uid c w)
           = w\<lparr>disk := ensurePreferenceFileExists (disk w)\<rparr>"
  by (auto simp: setUserLocationPreference_fn_def Let_def split: if_splits pref_file.splits option.splits)

text \<open>
  C10. Both setters validate before the read-modify-write, after
  \<open>ensurePreferenceFileExists\<close>. Whenever \<^verbatim>\<open>updatePushTime\<close> or
  \<^verbatim>\<open>setUserLocationPreference\<close> resolves to a \<open>ValidationError\<close> object, an existing
  file is left exactly as it was, and a missing file has been created holding the empty
  document \<open>{users: {}}\<close>: no user record is written, and nothing else of the state
  changes.
\<close>

theorem validation_failure_keeps_document:
  "(fst (updatePushTime uid time w) = ErrorObject (ValidationError m)
      \<longrightarrow> snd (updatePushTime uid time w)
            = w\<lparr>disk := (if disk w = Missing then Doc \<lparr>users = Some Map.empty\<rparr> else disk w)\<rparr>)
   \<and> (fst (setUserLocationPreference locations uid locationCode w) = ErrorObject (ValidationError m')
      \<longrightarrow> snd (setUserLocationPreference locations uid locationCode w)
            = w\<lparr>disk := (if disk w = Missing then Doc \<lparr>users = Some Map.empty\<rparr> else disk w)\<rparr>)"
proof (intro conjI impI)
  assume "fst (updatePushTime uid time w) = ErrorObject (ValidationError m)"
  then have "fst (updatePushTime_fn uid time w) = Inl (ValidationError m)"
    by (simp add: updatePushTime_def Let_def withErrorHandling_ErrorObject)
  then show "snd (updatePushTime uid time w)
      = w\<lparr>disk := (if disk w = Missing then Doc \<lparr>users = Some Map.empty\<rparr> else disk w)\<rparr>"
    using updatePushTime_fn_ValidationError [of uid time w m]
    by (simp add: updatePushTime_def Let_def ensure_cases)
next
  assume "fst (setUserLocationPreference locations uid locationCode w) = ErrorObject (ValidationError m')"
  then have "fst (setUserLocationPreference_fn locations uid locationCode w) = Inl (ValidationError m')"
    by (simp add: setUserLocationPreference_def Let_def withErrorHandling_ErrorObject)
  then show "snd (setUserLocationPreference locations uid locationCode w)
      = w\<lparr>disk := (if disk w = Missing then Doc \<lparr>users = Some Map.empty\<rparr> else disk w)\<rparr>"
    using setUserLocationPreference_fn_ValidationError [of locations uid locationCode w m']
    by (simp add: setUserLocationPreference_def Let_def ensure_cases)
qed

theorem validation_failure_keeps_document_witness:
  "fst (updatePushTime (js ''u1'') (js ''25:00'') (pristine u1_doc))
     = ErrorObject (ValidationError (msg_invalid_time @ js ''25:00''))
   \<and> snd (updatePushTime (js ''u1'') (js ''25:00'') (pristine u1_doc)) = pristine u1_doc
   \<and> fst (setUserLocationPreference [] (js ''u1'') (Some (js ''101010900'')) (pristine u1_doc))
     = ErrorObject (ValidationError (msg_invalid_code @ js ''101010900''))
   \<and> snd (setUserLocationPreference [] (js ''u1'') (Some (js ''101010900'')) (pristine u1_doc))
     = pristine u1_doc"
  using validation_failure_keeps_document
    [of "js ''u1''" "js ''25:00''" "pristine u1_doc" "msg_invalid_time @ js ''25:00''" "[]"
        "Some (js ''101010900'')" "msg_invalid_code @ js ''101010900''"]
  by (simp add: updatePushTime_def updatePushTime_fn_def Let_def withErrorHandling_def
      setUserLocationPreference_def setUserLocationPreference_fn_def isLocationValid1_def
      ensurePreferenceFileExists_def formattedTime_def singleDigitMatch_def timePattern_def js_def
      u1_doc_def to_string_def pristine_def)

text \<open>
  Stated for every state of the disk, "the document is left completely unchanged" fails:
  with no file on disk, an invalid time still creates the file.
\<close>

theorem validation_failure_file_counterexample:
  "fst (updatePushTime (js ''u1'') (js ''25:00'') (pristine Missing))
     = ErrorObject (ValidationError (msg_invalid_time @ js ''25:00''))
   \<and> disk (pristine Missing) = Missing
   \<and> disk (snd (updatePushTime (js ''u1'') (js ''25:00'') (pristine Missing))) \<noteq> Missing"
  by (simp add: updatePushTime_def updatePushTime_fn_def Let_def withErrorHandling_def
      ensurePreferenceFileExists_def formattedTime_def singleDigitMatch_def timePattern_def js_def
      pristine_def)

subsection \<open>Defaults of the preference reads\<close>

lemma default_not_member:
  "defaultCity \<notin> set object_prototype_names" "defaultDistrict \<notin> set object_prototype_names"
  by (simp_all add: defaultCity_def defaultDistrict_def object_prototype_names_def js_def)

lemma defaultLocation_eq:
  "defaultLocation rt env locations = Inr (configured_default env locations)"
  using default_not_member
  by (simp add: defaultLocation_def getLocationName_def dir_read_def configured_default_def
      own_entry_def split: option.splits)

lemma own_props_disk [simp]: "own_props (w\<lparr>disk := f\<rparr>) r = own_props w r"
  by (simp add: own_props_def split: user_ref.splits)

lemma ref_location_disk [simp]: "ref_location (w\<lparr>disk := f\<rparr>) r = ref_location w r"
  by (simp add: ref_location_def split: user_ref.splits option.splits)

lemma ref_pushTime_disk [simp]: "ref_pushTime (w\<lparr>disk := f\<rparr>) r = ref_pushTime w r"
  by (simp add: ref_pushTime_def split: user_ref.splits option.splits)




lemma no_leak_props: "no_leak w \<Longrightarrow> k \<in> set object_prototype_names \<Longrightarrow> leaked w k = no_props"
  by (simp add: no_leak_def list_all_iff)

lemma proto_member: "js ''__proto__'' \<in> set object_prototype_names"
  by (simp add: object_prototype_names_def)

lemma no_leak_nothing_visible:
  assumes "stored_user f uid = None" and "no_leak w"
  shows "ref_location w (user_ref_of f uid) = None" "ref_pushTime w (user_ref_of f uid) = None"
proof -
  have p: "leaked w (js ''__proto__'') = no_props"
    using assms(2) proto_member by (rule no_leak_props)
  have "user_ref_of f uid = NoUser \<or> user_ref_of f uid = Member uid \<and> leaked w uid = no_props"
    using assms no_leak_props [of w uid]
    by (auto simp: user_ref_of_def stored_user_def users_get_def split: pref_file.splits option.splits)
  then show "ref_location w (user_ref_of f uid) = None" "ref_pushTime w (user_ref_of f uid) = None"
    using p by (auto simp: ref_location_def ref_pushTime_def own_props_def no_props_def)
qed








text \<open>
  The lookup of the stored city and district follows the prototype chain. A stored
  location whose city and district name inherited members (\<open>constructor\<close> and its
  property \<open>name\<close>) is found by it, although the directory lists no such place, and is
  returned with the default code and the two names put together.
\<close>

lemma getUserLocationPreference_inherited_names:
  "fst (getUserLocationPreference names_only None [] (js ''u1'') (pristine inherited_doc))
     = Value \<lparr>city = js ''constructor'', district = js ''name'',
              code = Some (js ''101190104''), name = Some (js ''constructorname'')\<rparr>"
  by (simp add: inherited_doc_def pristine_def users_get_def ref_location_def own_props_def
      getUserLocationPreference_def getUserLocationPreference_fn_def
      ensurePreferenceFileExists_def withErrorHandling_def Let_def defaultLocation_eq
      isLocationValid2_def getLocationCode_def dir_read_def names_only_def
      object_prototype_names_def falsy_str_def configured_default_def config_code_def js_def)

subsection \<open>Setting a location and reading it back\<close>




lemma users_get_cases:
  obtains (none) "users_get us uid = NoUser" "us uid = None"
  | (own) u where "users_get us uid = OwnRecord u" "us uid = Some u"
  | (member) "users_get us uid = Member uid" "us uid = None" "uid \<in> set object_prototype_names"
  by (cases "us uid"; cases "uid \<in> set object_prototype_names") (auto simp: users_get_def)





text \<open>
  For a uid that names a member of \<open>Object.prototype\<close> the read-back goes through the
  memory of the process: the location has been set on the member, and the file holds
  what it held.
\<close>

lemma setLocation_inherited_uid_leaks:
  "disk (snd (setUserLocationPreference beijing_dir (js ''constructor'') (Some (js ''101010900''))
             (pristine u1_doc))) = u1_doc
   \<and> user_location (leaked (snd (setUserLocationPreference beijing_dir (js ''constructor'')
             (Some (js ''101010900'')) (pristine u1_doc))) (js ''constructor''))
       = Some \<lparr>city = js ''Beijing'', district = js ''Chaoyang'', code = Some (js ''101010900''),
               name = Some (js ''BeijingChaoyang'')\<rparr>"
  by (simp add: beijing_dir_def setUserLocationPreference_def setUserLocationPreference_fn_def
      isLocationValid1_def district_keys_def code_matches_def own_entry_def getLocationInfo_def
      ensurePreferenceFileExists_def Let_def pristine_def u1_doc_def users_get_def
      or_new_record_def write_prop_def object_prototype_names_def js_def)

subsection \<open>Token cache\<close>

lemma generate_exp:
  "generateWeatherJWT env now_gen = Inr t \<Longrightarrow> exp t = now_gen div 1000 + 3570"
  by (auto simp: generateWeatherJWT_def Let_def split: option.splits if_splits)

lemma floor_ms: "(n::int) - 1000 < 1000 * (n div 1000)"
  by presburger

lemma regenerate_inv:
  assumes "cache_inv c" "now \<le> now_gen"
  shows "cache_inv (snd (regenerate env c now now_gen))"
proof (cases "generateWeatherJWT env now_gen")
  case (Inl e)
  with assms show ?thesis by (simp add: regenerate_def)
next
  case (Inr t)
  from generate_exp [OF Inr] floor_ms [of now_gen] assms(2)
  have "now + 3000000 + 569000 < 1000 * exp t" by simp
  with Inr show ?thesis by (simp add: regenerate_def cache_inv_def)
qed

lemma getJWTToken_inv:
  "cache_inv c \<Longrightarrow> now \<le> now_gen \<Longrightarrow> cache_inv (snd (getJWTToken env c now now_gen))"
  by (auto simp: getJWTToken_def regenerate_inv split: option.splits)

lemma after_calls_inv:
  "cache_inv c \<Longrightarrow> monotone_calls calls \<Longrightarrow> cache_inv (after_calls c calls)"
  by (induction c calls rule: after_calls.induct)
     (auto simp: monotone_calls_def getJWTToken_inv)

lemma regenerate_margin:
  assumes "now \<le> now_gen" "fst (regenerate env c now now_gen) = Inr t"
  shows "now + 300000 < 1000 * exp t"
proof (cases "generateWeatherJWT env now_gen")
  case (Inl e)
  with assms show ?thesis by (simp add: regenerate_def)
next
  case (Inr t')
  with assms have "t' = t" by (simp add: regenerate_def)
  with generate_exp [OF Inr] floor_ms [of now_gen] assms(1) show ?thesis by simp
qed

lemma getJWTToken_margin:
  assumes "cache_inv c" "now \<le> now_gen" "fst (getJWTToken env c now now_gen) = Inr t"
  shows "now + 300000 < 1000 * exp t"
  using assms
  by (auto simp: getJWTToken_def cache_inv_def split: option.splits if_splits
      dest: regenerate_margin)

text \<open>
  C9. The token cache starts empty and the first call creates the token. A token generated
  by a call at time \<open>now\<close> is cached with an expiry of \<open>now\<close> plus 50 minutes and is
  invalidated 5 minutes before that cache expiry: every call up to 45 minutes after the
  generating call returns the same cached token and leaves the cache as it is, and the first
  call later than that regenerates. In every state reached from the empty cache, a returned
  token is never within 5 minutes of the nominal expiry \<open>exp\<close> it encodes.
\<close>

theorem jwt_cache_lifecycle:
  "cachedToken jwt_init = None
   \<and> (generateWeatherJWT env now_gen = Inr t
      \<longrightarrow> getJWTToken env jwt_init now now_gen
            = (Inr t, \<lparr>cachedToken = Some t, tokenExpiry = now + 3000000\<rparr>))
   \<and> (now2 \<le> now + 2700000
      \<longrightarrow> getJWTToken env2 \<lparr>cachedToken = Some t, tokenExpiry = now + 3000000\<rparr> now2 now_gen2
            = (Inr t, \<lparr>cachedToken = Some t, tokenExpiry = now + 3000000\<rparr>))
   \<and> (now + 2700000 < now2
      \<longrightarrow> fst (getJWTToken env2 \<lparr>cachedToken = Some t, tokenExpiry = now + 3000000\<rparr> now2 now_gen2)
            = generateWeatherJWT env2 now_gen2)
   \<and> (monotone_calls calls \<and> now3 \<le> now_gen3
        \<and> fst (getJWTToken env3 (after_calls jwt_init calls) now3 now_gen3) = Inr t3
      \<longrightarrow> now3 + 300000 < 1000 * exp t3)"
proof (intro conjI impI)
  show "cachedToken jwt_init = None" by (simp add: jwt_init_def)
  show "getJWTToken env jwt_init now now_gen
            = (Inr t, \<lparr>cachedToken = Some t, tokenExpiry = now + 3000000\<rparr>)"
    if "generateWeatherJWT env now_gen = Inr t"
    using that by (simp add: getJWTToken_def jwt_init_def regenerate_def)
  show "getJWTToken env2 \<lparr>cachedToken = Some t, tokenExpiry = now + 3000000\<rparr> now2 now_gen2
            = (Inr t, \<lparr>cachedToken = Some t, tokenExpiry = now + 3000000\<rparr>)"
    if "now2 \<le> now + 2700000"
    using that by (simp add: getJWTToken_def)
  show "fst (getJWTToken env2 \<lparr>cachedToken = Some t, tokenExpiry = now + 3000000\<rparr> now2 now_gen2)
            = generateWeatherJWT env2 now_gen2"
    if "now + 2700000 < now2"
    using that by (simp add: getJWTToken_def regenerate_def split: sum.splits)
  show "now3 + 300000 < 1000 * exp t3"
    if "monotone_calls calls \<and> now3 \<le> now_gen3
        \<and> fst (getJWTToken env3 (after_calls jwt_init calls) now3 now_gen3) = Inr t3"
  proof -
    have "cache_inv jwt_init" by (simp add: cache_inv_def jwt_init_def)
    with that have "cache_inv (after_calls jwt_init calls)" by (simp add: after_calls_inv)
    with that show ?thesis by (blast intro: getJWTToken_margin)
  qed
qed

lemma generate_env_ok: "generateWeatherJWT env_ok n = Inr (token_at (n div 1000 - 30))"
  by (simp add: generateWeatherJWT_def env_ok_def token_at_def falsy_str_def to_string_def Let_def js_def)

theorem jwt_cache_lifecycle_witness:
  "getJWTToken env_ok jwt_init 1000000000 1000000000
     = (Inr (token_at 999970), \<lparr>cachedToken = Some (token_at 999970), tokenExpiry = 1003000000\<rparr>)
   \<and> getJWTToken env_ok \<lparr>cachedToken = Some (token_at 999970), tokenExpiry = 1003000000\<rparr>
        1002700000 1002700000
     = (Inr (token_at 999970), \<lparr>cachedToken = Some (token_at 999970), tokenExpiry = 1003000000\<rparr>)
   \<and> fst (getJWTToken env_ok \<lparr>cachedToken = Some (token_at 999970), tokenExpiry = 1003000000\<rparr>
        1002700001 1002700001)
     = Inr (token_at 1002670)
   \<and> (1002700000::int) + 300000 < 1000 * exp (token_at 999970)"
proof -
  have g: "generateWeatherJWT env_ok 1000000000 = Inr (token_at 999970)"
    by (simp add: generate_env_ok)
  have m: "monotone_calls [(env_ok, 1000000000, 1000000000)]"
    by (simp add: monotone_calls_def)
  have c: "after_calls jwt_init [(env_ok, 1000000000, 1000000000)]
      = \<lparr>cachedToken = Some (token_at 999970), tokenExpiry = 1003000000\<rparr>"
    by (simp add: getJWTToken_def jwt_init_def regenerate_def g)
  have r: "fst (getJWTToken env_ok (after_calls jwt_init [(env_ok, 1000000000, 1000000000)])
             1002700000 1002700000) = Inr (token_at 999970)"
    unfolding c by (simp add: getJWTToken_def)
  show ?thesis
    using jwt_cache_lifecycle [of env_ok 1000000000 "token_at 999970" 1000000000
        1002700000 env_ok 1002700000 "[(env_ok, 1000000000, 1000000000)]" 1002700000 1002700000
        env_ok "token_at 999970"]
      jwt_cache_lifecycle [of env_ok 1000000000 "token_at 999970" 1000000000
        1002700001 env_ok 1002700001 "[]" 0 0 env_ok "token_at 0"]
      g m r
    by (simp add: generate_env_ok)
qed

text \<open>
  Between 45 minutes after generation and 5 minutes before the nominal expiry the cached
  token is not returned again: at 46 minutes a new token is generated.
\<close>

theorem jwt_cache_margin_counterexample:
  "getJWTToken env_ok jwt_init 1000000000 1000000000
     = (Inr (token_at 999970), \<lparr>cachedToken = Some (token_at 999970), tokenExpiry = 1003000000\<rparr>)
   \<and> (1002760000::int) < 1000 * exp (token_at 999970) - 300000
   \<and> fst (getJWTToken env_ok \<lparr>cachedToken = Some (token_at 999970), tokenExpiry = 1003000000\<rparr>
        1002760000 1002760000)
     = Inr (token_at 1002730)
   \<and> token_at 1002730 \<noteq> token_at 999970"
  by (simp add: getJWTToken_def jwt_init_def regenerate_def generate_env_ok token_at_def)

subsection \<open>Charts in the message\<close>

lemma generate_chart_Inr:
  "\<exists>u. generate_chart prefix outcome dailyData locationCode = Inr u"
  by (simp add: generate_chart_def split: option.splits)

lemma generateChartImageWithString_saved:
  "generateChartImageWithString outcome p \<noteq> None \<longleftrightarrow> chart_saved outcome"
  by (cases outcome rule: chart_saved.cases)
     (auto simp: generateChartImageWithString_def)

lemma generateChartImageWithString_nonempty:
  "generateChartImageWithString outcome p = Some filename \<Longrightarrow> filename \<noteq> []"
  by (auto simp: generateChartImageWithString_def js_def split: chart_outcome.splits if_splits option.splits)

lemma generate_chart_result:
  "3 \<le> length ds \<Longrightarrow>
   \<exists>u. generate_chart prefix outcome (Some ds) locationCode = Inr u
       \<and> (falsy_str u \<longleftrightarrow> \<not> chart_saved outcome)"
  using generateChartImageWithString_saved [of outcome "prefix @ locationCode"]
    generateChartImageWithString_nonempty [of outcome "prefix @ locationCode"]
  by (auto simp: generate_chart_def falsy_str_def js_def split: option.splits)

lemma chart_urls_result:
  assumes "3 \<le> length ds"
  shows "\<exists>t r w. chart_urls env ds locationCode = (t, r, w)
          \<and> (falsy_str t \<longleftrightarrow> \<not> chart_saved (chart_api env TemperatureChart))
          \<and> (falsy_str r \<longleftrightarrow> \<not> chart_saved (chart_api env RainfallChart))
          \<and> (falsy_str w \<longleftrightarrow> \<not> chart_saved (chart_api env WindChart))"
proof -
  obtain t where t: "generate_chart (js ''temp_chart_'') (chart_api env TemperatureChart) (Some ds) locationCode = Inr t"
    "falsy_str t \<longleftrightarrow> \<not> chart_saved (chart_api env TemperatureChart)"
    using generate_chart_result [OF assms] by blast
  obtain r where r: "generate_chart (js ''rain_chart_'') (chart_api env RainfallChart) (Some ds) locationCode = Inr r"
    "falsy_str r \<longleftrightarrow> \<not> chart_saved (chart_api env RainfallChart)"
    using generate_chart_result [OF assms] by blast
  obtain w where w: "generate_chart (js ''wind_chart_'') (chart_api env WindChart) (Some ds) locationCode = Inr w"
    "falsy_str w \<longleftrightarrow> \<not> chart_saved (chart_api env WindChart)"
    using generate_chart_result [OF assms] by blast
  from t r w show ?thesis
    by (simp add: chart_urls_def generateTemperatureChart_def generateRainfallChart_def
        generateWindChart_def)
qed

lemma chart_kinds_append [simp]: "chart_kinds (xs @ ys) = chart_kinds xs @ chart_kinds ys"
  by (induction xs rule: chart_kinds.induct) simp_all

lemma chart_kinds_chart_section:
  "chart_kinds (chart_section env k u) = (if falsy_str u then [] else [k])"
  by (simp add: chart_section_def)

lemma formatWeatherData_charts:
  assumes "daily w = Some ds" "3 \<le> length ds"
  shows "\<exists>secs. formatWeatherData env (Some w) suggestion = Html secs
           \<and> chart_kinds secs = filter (\<lambda>k. chart_saved (chart_api env k))
                                  [TemperatureChart, RainfallChart, WindChart]"
proof -
  obtain t r x where u: "chart_urls env ds (or_else (location w) (js ''101190104'')) = (t, r, x)"
    and f: "falsy_str t \<longleftrightarrow> \<not> chart_saved (chart_api env TemperatureChart)"
      "falsy_str r \<longleftrightarrow> \<not> chart_saved (chart_api env RainfallChart)"
      "falsy_str x \<longleftrightarrow> \<not> chart_saved (chart_api env WindChart)"
    using chart_urls_result [OF assms(2)] by blast
  show ?thesis
    using assms f
    by (simp add: formatWeatherData_def Let_def u chart_kinds_chart_section)
qed

text \<open>
  C7. For a forecast of at least three days (so that charts are generated), formatting
  always completes with an HTML message, whose chart sections are exactly those of the
  chart requests that succeeded, in the order temperature, rainfall, wind: each chart's
  section depends on its own request only. In particular, when the rainfall chart fails
  and the other two succeed, the message has the temperature and wind chart sections and
  only the rainfall section is missing.
\<close>

theorem formatWeatherData_chart_failure_isolated:
  assumes "daily w = Some ds" "3 \<le> length ds"
  shows "\<exists>secs. formatWeatherData env (Some w) suggestion = Html secs
           \<and> chart_kinds secs = filter (\<lambda>k. chart_saved (chart_api env k))
                                  [TemperatureChart, RainfallChart, WindChart]
           \<and> (\<not> chart_saved (chart_api env RainfallChart)
                \<and> chart_saved (chart_api env TemperatureChart)
                \<and> chart_saved (chart_api env WindChart)
              \<longrightarrow> chart_kinds secs = [TemperatureChart, WindChart])"
  using formatWeatherData_charts [OF assms, of env suggestion] by auto

theorem formatWeatherData_chart_failure_isolated_witness:
  "formatWeatherData rain_fails (Some three_days) None
     = Html [Header (js ''Nanjing'') (js ''2025-01-02''), Conditions (sunny (js ''2025-01-02'')),
             Trend [sunny (js ''2025-01-01''), sunny (js ''2025-01-02''), sunny (js ''2025-01-03'')],
             Chart TemperatureChart (js ''http://localhost:3000/charts/temp_chart_101190104_1700000000000.png''),
             Chart WindChart (js ''http://localhost:3000/charts/wind_chart_101190104_1700000000002.png''),
             Footer]
   \<and> chart_kinds [Header (js ''Nanjing'') (js ''2025-01-02''), Conditions (sunny (js ''2025-01-02'')),
             Trend [sunny (js ''2025-01-01''), sunny (js ''2025-01-02''), sunny (js ''2025-01-03'')],
             Chart TemperatureChart (js ''http://localhost:3000/charts/temp_chart_101190104_1700000000000.png''),
             Chart WindChart (js ''http://localhost:3000/charts/wind_chart_101190104_1700000000002.png''),
             Footer]
     = [TemperatureChart, WindChart]"
proof -
  have d: "daily three_days
      = Some [sunny (js ''2025-01-01''), sunny (js ''2025-01-02''), sunny (js ''2025-01-03'')]"
    by (simp add: three_days_def)
  have e: "formatWeatherData rain_fails (Some three_days) None
     = Html [Header (js ''Nanjing'') (js ''2025-01-02''), Conditions (sunny (js ''2025-01-02'')),
             Trend [sunny (js ''2025-01-01''), sunny (js ''2025-01-02''), sunny (js ''2025-01-03'')],
             Chart TemperatureChart (js ''http://localhost:3000/charts/temp_chart_101190104_1700000000000.png''),
             Chart WindChart (js ''http://localhost:3000/charts/wind_chart_101190104_1700000000002.png''),
             Footer]"
    by (simp add: formatWeatherData_def three_days_def rain_fails_def sunny_def chart_urls_def
        generateTemperatureChart_def generateRainfallChart_def generateWindChart_def
        generate_chart_def generateChartImageWithString_def chart_section_def or_else_def
        falsy_str_def to_string_def Let_def js_def)
  from formatWeatherData_chart_failure_isolated [OF d, of rain_fails None] e
  show ?thesis by (simp add: rain_fails_def)
qed

subsection \<open>The push loop and the scheduler\<close>

lemma attempted_append [simp]: "attempted (xs @ ys) = attempted xs @ attempted ys"
  by (induction xs rule: attempted.induct) simp_all

lemma concluded_append [simp]: "concluded (xs @ ys) = concluded xs @ concluded ys"
  by (induction xs rule: concluded.induct) simp_all

lemma push_one_events:
  "attempted (fst (push_one rt env locations sv uid w)) = [uid]
   \<and> concluded (fst (push_one rt env locations sv uid w)) = [uid]"
  by (simp add: push_one_def Let_def split: sum.splits)

lemma attempted_push_loop:
  "attempted (fst (push_loop rt env locations sv i uids w)) = uids"
  by (induction uids arbitrary: i w) (simp_all add: Let_def push_one_events)

lemma concluded_push_loop:
  "concluded (fst (push_loop rt env locations sv i uids w)) = uids"
  by (induction uids arbitrary: i w) (simp_all add: Let_def push_one_events)

text \<open>
  C2. Whatever the services do for each user (any of the forecast, suggestion and push
  requests may throw for any user), one run of the push loop returns normally, starts
  the pipeline of every uid of the list, in order, and brings each of them to an end
  (pushed, or its error caught and logged): a failure for one uid never keeps the loop
  from attempting the uids after it.
\<close>

theorem getWeatherAndPush_isolates_failures:
  "fst (getWeatherAndPush rt env locations sv enabled targetUids w) = Value ()
   \<and> attempted (fst (snd (getWeatherAndPush rt env locations sv enabled targetUids w)))
       = (case targetUids of Some us \<Rightarrow> us | None \<Rightarrow> enabled)
   \<and> concluded (fst (snd (getWeatherAndPush rt env locations sv enabled targetUids w)))
       = (case targetUids of Some us \<Rightarrow> us | None \<Rightarrow> enabled)"
  by (simp add: getWeatherAndPush_def getWeatherAndPush_fn_def Let_def withErrorHandling_def
        attempted_push_loop concluded_push_loop del: push_loop.simps)

theorem getWeatherAndPush_isolates_failures_witness:
  "fst (getWeatherAndPush names_only None [] first_down [] (Some [js ''u1'', js ''u2''])
          (pristine two_users)) = Value ()
   \<and> (\<exists>m s. fst (snd (getWeatherAndPush names_only None [] first_down []
                         (Some [js ''u1'', js ''u2'']) (pristine two_users)))
        = [Started (js ''u1''), Failed (js ''u1'') (Error (js ''timeout'')),
           Started (js ''u2''), Pushed (js ''u2'') m s])
   \<and> attempted (fst (snd (getWeatherAndPush names_only None [] first_down []
        (Some [js ''u1'', js ''u2'']) (pristine two_users)))) = [js ''u1'', js ''u2'']"
proof -
  have "\<exists>m s. fst (snd (getWeatherAndPush names_only None [] first_down []
                         (Some [js ''u1'', js ''u2'']) (pristine two_users)))
        = [Started (js ''u1''), Failed (js ''u1'') (Error (js ''timeout'')),
           Started (js ''u2''), Pushed (js ''u2'') m s]"
    by (simp add: getWeatherAndPush_def getWeatherAndPush_fn_def Let_def push_one_def
        first_down_def sv_down_def sv_up_def getTomorrowWeather_def three_days_def)
  with getWeatherAndPush_isolates_failures
    [of names_only None "[]" first_down "[]" "Some [js ''u1'', js ''u2'']" "pristine two_users"]
  show ?thesis by simp
qed

lemma valid_or_default_falsy: "\<not> truthy v \<Longrightarrow> valid_or_default v = js ''20:00''"
  by (cases v rule: truthy.cases) (simp_all add: valid_or_default_def)

lemma read_pushTime_resolved:
  "valid_or_default (fst (read_pushTime uid w)) = resolved_pushTime w uid"
proof (cases "disk w")
  case Missing
  then show ?thesis
    by (simp add: read_pushTime_def resolved_pushTime_def visible_pushTime_def user_ref_of_def
        ref_pushTime_def valid_or_default_def)
next
  case Unparsable
  then show ?thesis
    by (simp add: read_pushTime_def resolved_pushTime_def visible_pushTime_def user_ref_of_def
        ref_pushTime_def valid_or_default_def)
next
  case (Doc data)
  show ?thesis
  proof (cases "users data")
    case None
    with Doc show ?thesis
      by (simp add: read_pushTime_def resolved_pushTime_def visible_pushTime_def user_ref_of_def
          ref_pushTime_def valid_or_default_def)
  next
    case (Some us)
    have v: "visible_pushTime w uid = ref_pushTime w (users_get us uid)"
      using Doc Some by (simp add: visible_pushTime_def user_ref_of_def)
    show ?thesis
    proof (cases "truthy (ref_pushTime w (users_get us uid))")
      case True
      with Doc Some show ?thesis
        by (simp add: read_pushTime_def resolved_pushTime_def v Let_def)
    next
      case False
      then have "fst (read_pushTime uid w) = Some (Str (js ''20:00''))"
        using Doc Some by (simp add: read_pushTime_def Let_def split: user_ref.splits)
      with False show ?thesis
        by (simp add: resolved_pushTime_def v valid_or_default_falsy)
           (simp add: valid_or_default_def js_def)
    qed
  qed
qed

lemma resolved_no_leak:
  assumes "no_leak w" and "stored_user (disk w) uid = None"
  shows "resolved_pushTime w uid = js ''20:00''"
  using no_leak_nothing_visible(2) [OF assms(2) assms(1)]
  by (simp add: resolved_pushTime_def visible_pushTime_def valid_or_default_def)

lemma resolved_own:
  assumes "disk w = Doc data" "users data = Some us" "us uid = Some u" "pushTime u = Some v"
  shows "resolved_pushTime w uid = valid_or_default (Some v)"
  using assms
  by (simp add: resolved_pushTime_def visible_pushTime_def user_ref_of_def users_get_def
      ref_pushTime_def own_props_def)

lemma default_record_pushTime: "pushTime default_record = Some (Str (js ''20:00''))"
  by (simp add: default_record_def)

lemma valid_or_default_2000: "valid_or_default (Some (Str (js ''20:00''))) = js ''20:00''"
  by (simp add: valid_or_default_def js_def)

lemma resolved_read_pushTime:
  assumes "disk w \<noteq> Missing \<or> no_leak w"
  shows "resolved_pushTime (snd (read_pushTime uid w)) uid' = resolved_pushTime w uid'"
proof (cases "disk w")
  case Missing
  with assms have nl: "no_leak w" by simp
  let ?w = "w\<lparr>disk := Doc \<lparr>users = Some [uid \<mapsto> default_record]\<rparr>\<rparr>"
  have s: "snd (read_pushTime uid w) = ?w" using Missing by (simp add: read_pushTime_def)
  have b: "resolved_pushTime w uid' = js ''20:00''"
    using nl Missing by (simp add: resolved_no_leak stored_user_def)
  have nl': "no_leak ?w" using nl by (simp add: no_leak_def)
  have "resolved_pushTime ?w uid' = js ''20:00''"
  proof (cases "uid' = uid")
    case True
    then show ?thesis
      using resolved_own [of ?w "\<lparr>users = Some [uid \<mapsto> default_record]\<rparr>" "[uid \<mapsto> default_record]"
          uid default_record "Str (js ''20:00'')"]
      by (simp add: default_record_pushTime valid_or_default_2000)
  next
    case False
    then show ?thesis using nl' by (simp add: resolved_no_leak stored_user_def)
  qed
  with s b show ?thesis by simp
next
  case Unparsable
  then show ?thesis by (simp add: read_pushTime_def)
next
  case (Doc data)
  show ?thesis
  proof (cases "users data")
    case None
    with Doc show ?thesis by (simp add: read_pushTime_def)
  next
    case (Some us)
    show ?thesis
    proof (cases "truthy (ref_pushTime w (users_get us uid))")
      case True
      with Doc Some show ?thesis by (simp add: read_pushTime_def Let_def)
    next
      case False
      note falsy = this
      show ?thesis
      proof (cases rule: users_get_cases [of us uid])
        case none
        then have s: "snd (read_pushTime uid w)
            = w\<lparr>disk := Doc (data\<lparr>users := Some (us(uid \<mapsto> default_record))\<rparr>)\<rparr>"
          using Doc Some falsy by (simp add: read_pushTime_def Let_def)
        show ?thesis
        proof (cases "uid' = uid")
          case True
          have "resolved_pushTime w uid = js ''20:00''"
            using Doc Some none
            by (simp add: resolved_pushTime_def visible_pushTime_def user_ref_of_def
                ref_pushTime_def valid_or_default_def)
          then show ?thesis
            using True
            by (simp add: s resolved_pushTime_def visible_pushTime_def user_ref_of_def
                users_get_def ref_pushTime_def own_props_def default_record_pushTime
                valid_or_default_2000)
        next
          case False
          then show ?thesis
            using Doc Some
            by (simp add: s resolved_pushTime_def visible_pushTime_def user_ref_of_def
                users_get_def)
        qed
      next
        case (own u)
        then have s: "snd (read_pushTime uid w)
            = w\<lparr>disk := Doc (data\<lparr>users := Some (us(uid \<mapsto> u\<lparr>pushTime := Some (Str (js ''20:00''))\<rparr>))\<rparr>)\<rparr>"
          using Doc Some falsy by (simp add: read_pushTime_def Let_def write_prop_def)
        show ?thesis
        proof (cases "uid' = uid")
          case True
          have "resolved_pushTime w uid = js ''20:00''"
            using Doc Some own falsy
            by (simp add: resolved_pushTime_def visible_pushTime_def user_ref_of_def
                valid_or_default_falsy)
          then show ?thesis
            using True
            by (simp add: s resolved_pushTime_def visible_pushTime_def user_ref_of_def
                users_get_def ref_pushTime_def own_props_def valid_or_default_2000)
        next
          case False
          then show ?thesis
            using Doc Some
            by (simp add: s resolved_pushTime_def visible_pushTime_def user_ref_of_def
                users_get_def)
        qed
      next
        case member
        let ?lk = "(leaked w)(uid := (leaked w uid)\<lparr>pushTime := Some (Str (js ''20:00''))\<rparr>)"
        have same: "w\<lparr>disk := Doc data\<rparr> = w" using Doc by simp
        have "snd (read_pushTime uid w) = w\<lparr>disk := Doc data, leaked := ?lk\<rparr>"
          using Doc Some falsy member by (simp add: read_pushTime_def Let_def write_prop_def)
        then have s: "snd (read_pushTime uid w) = w\<lparr>leaked := ?lk\<rparr>"
          by (simp add: same)
        have own_none: "pushTime (leaked w uid) = None \<or> \<not> truthy (pushTime (leaked w uid))"
          using falsy member
          by (auto simp: ref_pushTime_def own_props_def split: option.splits)
        have r: "user_ref_of (Doc data) uid' = users_get us uid'"
          using Some by (simp add: user_ref_of_def)
        have before: "resolved_pushTime w uid' = valid_or_default (ref_pushTime w (users_get us uid'))"
          using Doc r by (simp add: resolved_pushTime_def visible_pushTime_def)
        have after: "resolved_pushTime (snd (read_pushTime uid w)) uid'
            = valid_or_default (ref_pushTime (w\<lparr>leaked := ?lk\<rparr>) (users_get us uid'))"
          using r Doc by (simp add: s resolved_pushTime_def visible_pushTime_def)
        have "valid_or_default (ref_pushTime (w\<lparr>leaked := ?lk\<rparr>) (users_get us uid'))
            = valid_or_default (ref_pushTime w (users_get us uid'))"
        proof (cases rule: users_get_cases [of us uid'])
          case none
          then show ?thesis by (simp add: ref_pushTime_def)
        next
          case (own u')
          show ?thesis
          proof (cases "pushTime u'")
            case None
            show ?thesis
            proof (cases "uid = js ''__proto__''")
              case True
              with falsy member have "\<not> truthy (pushTime (leaked w (js ''__proto__'')))"
                by (auto simp: ref_pushTime_def own_props_def split: option.splits)
              then show ?thesis
                using own None True
                by (simp add: ref_pushTime_def own_props_def valid_or_default_falsy
                    valid_or_default_2000)
            next
              case False
              then show ?thesis using own None by (simp add: ref_pushTime_def own_props_def)
            qed
          next
            case (Some v)
            then show ?thesis using own by (simp add: ref_pushTime_def own_props_def)
          qed
        next
          case member': member
          show ?thesis
          proof (cases "uid' = uid")
            case True
            have "valid_or_default (ref_pushTime w (Member uid)) = js ''20:00''"
              using falsy member by (simp add: valid_or_default_falsy)
            then show ?thesis
              using True member
              by (simp add: ref_pushTime_def own_props_def valid_or_default_2000)
          next
            case False
            note ne = this
            show ?thesis
            proof (cases "pushTime (leaked w uid')")
              case None
              show ?thesis
              proof (cases "uid = js ''__proto__''")
                case True
                with falsy member have "\<not> truthy (pushTime (leaked w (js ''__proto__'')))"
                  by (auto simp: ref_pushTime_def own_props_def split: option.splits)
                then show ?thesis
                  using member' None True ne
                  by (simp add: ref_pushTime_def own_props_def valid_or_default_falsy
                      valid_or_default_2000)
              next
                case False
                then show ?thesis
                  using member' None ne by (simp add: ref_pushTime_def own_props_def)
              qed
            next
              case (Some v)
              then show ?thesis
                using member' ne by (simp add: ref_pushTime_def own_props_def)
            qed
          qed
        qed
        with before after show ?thesis by simp
      qed
    qed
  qed
qed

lemma read_pushTime_keeps_file:
  "disk (snd (read_pushTime uid w)) \<noteq> Missing"
  by (simp add: read_pushTime_def write_prop_def Let_def
      split: pref_file.splits option.splits user_ref.splits)

lemma check_users_filter:
  "disk w \<noteq> Missing \<or> no_leak w \<Longrightarrow>
   fst (check_users num h m uids w)
     = filter (\<lambda>uid. time_matches num (resolved_pushTime w uid) h m) uids"
proof (induction uids arbitrary: w)
  case Nil
  then show ?case by simp
next
  case (Cons uid uids)
  let ?w = "snd (read_pushTime uid w)"
  have "disk ?w \<noteq> Missing \<or> no_leak ?w" using read_pushTime_keeps_file by blast
  then have "fst (check_users num h m uids ?w)
     = filter (\<lambda>uid. time_matches num (resolved_pushTime ?w uid) h m) uids"
    by (rule Cons.IH)
  then have "fst (check_users num h m uids ?w)
     = filter (\<lambda>uid. time_matches num (resolved_pushTime w uid) h m) uids"
    by (simp add: resolved_read_pushTime [OF Cons.prems])
  then show ?case
    by (simp add: Let_def read_pushTime_resolved)
qed


lemma scheduleTask_job_attempted:
  assumes "disk w \<noteq> Missing \<or> no_leak w"
  shows "attempted (fst (scheduleTask_job rt num env locations sv userUids h m w))
     = filter (\<lambda>uid. time_matches num (resolved_pushTime w uid) h m) userUids"
proof -
  let ?us = "fst (check_users num h m userUids w)"
  have "attempted (fst (scheduleTask_job rt num env locations sv userUids h m w)) = ?us"
  proof (cases "userUids = []")
    case True
    then show ?thesis by (simp add: scheduleTask_job_def)
  next
    case False
    then show ?thesis
      by (simp add: scheduleTask_job_def Let_def getWeatherAndPush_def getWeatherAndPush_fn_def
          attempted_push_loop del: push_loop.simps check_users.simps)
  qed
  then show ?thesis by (simp add: check_users_filter [OF assms])
qed







text \<open>
  A stored push time that is a string but no clock time is not replaced by the default:
  it parses to no hour and minute, and its user is dispatched at no time of the day, also
  not at 20:00.
\<close>

lemma scheduleTask_job_no_clock_time:
  "resolved_pushTime (pristine no_clock_doc) (js ''u1'') = js ''abc''
   \<and> attempted (fst (scheduleTask_job names_only decimal_Number None [] first_down
                       [js ''u1''] 20 0 (pristine no_clock_doc))) = []"
proof -
  have r: "resolved_pushTime (pristine no_clock_doc) (js ''u1'') = js ''abc''"
    by (simp add: resolved_pushTime_def visible_pushTime_def user_ref_of_def users_get_def
        ref_pushTime_def own_props_def pristine_def no_clock_doc_def valid_or_default_def js_def)
  have t: "\<not> time_matches decimal_Number (js ''abc'') 20 0"
    by (simp add: time_matches_def decimal_Number_def is_digit_def js_def)
  have d: "disk (pristine no_clock_doc) \<noteq> Missing \<or> no_leak (pristine no_clock_doc)"
    by (simp add: pristine_def no_clock_doc_def)
  show ?thesis
    using scheduleTask_job_attempted
      [OF d, of names_only decimal_Number None "[]" first_down "[js ''u1'']" 20 0] r t
    by simp
qed

subsection \<open>The command handler\<close>

lemma provinces_get_toString: "provinces_get (js ''toString'') = OtherInherited"
  by (simp add: provinces_get_def provinces_def object_prototype_others_def js_def)

lemma match_argument_toString:
  "match_argument cmd_province (cmd_province @ 0xFF1A # js ''toString'') = Some (js ''toString'')"
  by (simp add: match_argument_def startsWith_def after_colon_def is_space_def
      no_line_terminator_def is_line_terminator_def js_def)

lemma trim_toString: "trim (js ''toString'') = js ''toString''"
  by (simp add: trim_def is_space_def js_def)

text \<open>
  C8. The handler does not return a reply for every message: on the province command
  followed by \<open>toString\<close> (the message \<open>cmd_province\<close>, a full-width colon,
  \<open>toString\<close>), for every uid, directory, engine and state, the lookup in the province
  table finds the inherited \<open>Object.prototype.toString\<close>, whose result has no \<open>map\<close>,
  and \<^verbatim>\<open>handleMessage\<close> throws a \<open>TypeError\<close> to its caller.
\<close>

theorem handleMessage_inherited_property_throws:
  "handleMessage rt env_LOCATION locations (cmd_province @ 0xFF1A # js ''toString'') uid w
     = (Inl TypeError, w)"
proof -
  let ?m = "cmd_province @ 0xFF1A # js ''toString''"
  have a: "\<not> startsWith ?m cmd_set_location" "?m \<noteq> cmd_list_locations"
    "\<not> startsWith ?m cmd_city_detail" "startsWith ?m cmd_province"
    by (simp_all add: startsWith_def cmd_province_def cmd_set_location_def cmd_list_locations_def
        cmd_city_detail_def js_def)
  have "handleProvinceDetail locations (js ''toString'') = Inl TypeError"
    by (simp add: handleProvinceDetail_def provinces_get_toString)
  with a show ?thesis
    by (simp add: handleMessage_def match_argument_toString trim_toString)
qed

text \<open>
  The rest of the handler behaves as described: a message that matches no command gets
  the HTML reply with the "unrecognized command" title, and the handler throws only in
  the case above, for the names of the inherited members other than \<open>constructor\<close>, and
  in \<^verbatim>\<open>handleSetLocation\<close> when the read \<open>locations[city][district]\<close> of its test
  throws, which only a property of a member of \<open>Object.prototype\<close> can do.
\<close>

lemma startsWith_append: "startsWith s (p @ q) \<Longrightarrow> startsWith s p"
proof -
  assume "startsWith s (p @ q)"
  then have "take (length p) (take (length (p @ q)) s) = take (length p) (p @ q)"
    by (simp only: startsWith_def)
  then show ?thesis by (simp add: startsWith_def min_def)
qed

lemma city_detail_province: "cmd_city_detail = cmd_province @ [0x8BE6, 0x60C5]"
  by (simp add: cmd_city_detail_def cmd_province_def)

lemma handleMessage_unrecognized:
  assumes "\<not> startsWith message cmd_set_location" "message \<noteq> cmd_list_locations"
    "\<not> startsWith message cmd_province" "message \<noteq> cmd_current_location"
    "\<not> startsWith message cmd_set_push_time" "message \<noteq> cmd_get_push_time"
    "message \<noteq> cmd_help"
  shows "handleMessage rt env_LOCATION locations message uid w
     = (Inr \<lparr>content = \<lparr>card_title = title_unrecognized, card_text = Unrecognized,
                           card_type = WarningCard\<rparr>,
             isHtml = True\<rparr>, w)"
proof -
  from assms(3) have "\<not> startsWith message cmd_city_detail"
    unfolding city_detail_province by (blast dest: startsWith_append)
  with assms show ?thesis
    by (simp add: handleMessage_def formatCommandResponse_def)
qed

lemma find_map_of:
  "find P (map fst xs) = Some k \<Longrightarrow> map_of xs k \<noteq> None"
  by (induction xs) (auto split: if_splits)

lemma handleProvinceDetail_throws:
  "(\<exists>e. handleProvinceDetail locations provinceName = Inl e)
     \<longleftrightarrow> provinces_get provinceName = OtherInherited"
proof (cases "provinces_get provinceName")
  case (OwnFilter flt)
  then show ?thesis by (simp add: handleProvinceDetail_def)
next
  case ObjectConstructor
  then show ?thesis by (simp add: handleProvinceDetail_def)
next
  case OtherInherited
  then show ?thesis by (simp add: handleProvinceDetail_def)
next
  case Undefined
  show ?thesis
  proof (cases "find (\<lambda>p. includes_str p provinceName \<or> includes_str provinceName p) (map fst provinces)")
    case None
    with Undefined show ?thesis by (simp add: handleProvinceDetail_def)
  next
    case (Some p)
    then have "map_of provinces p \<noteq> None" by (rule find_map_of)
    then obtain flt where "provinces_get p = OwnFilter flt"
      by (auto simp: provinces_get_def)
    with Undefined Some show ?thesis by (simp add: handleProvinceDetail_def)
  qed
qed

lemma handleSetLocation_throws:
  "(\<exists>e. fst (handleSetLocation rt locations message uid w) = Inl e)
     \<longleftrightarrow> (\<exists>city0 district0.
            match_city_district cmd_set_location message = Some (city0, district0)
            \<and> dir_read rt locations (remove_final 0x5E02 city0)
                  (remove_final 0x53BF (remove_final 0x533A district0)) = Raises)"
proof (cases "match_city_district cmd_set_location message")
  case None
  then show ?thesis by (simp add: handleSetLocation_def)
next
  case (Some p)
  obtain city0 district0 where p: "p = (city0, district0)" by (cases p)
  show ?thesis
    by (cases "dir_read rt locations (remove_final 0x5E02 city0)
                  (remove_final 0x53BF (remove_final 0x533A district0))")
       (simp_all add: handleSetLocation_def Some p Let_def isLocationValid2_def getLocationCode_def)
qed

lemma handleMessage_throws:
  "(\<exists>e. fst (handleMessage rt env_LOCATION locations message uid w) = Inl e)
     \<longleftrightarrow> (startsWith message cmd_set_location
          \<and> (\<exists>city0 district0.
                match_city_district cmd_set_location message = Some (city0, district0)
                \<and> dir_read rt locations (remove_final 0x5E02 city0)
                      (remove_final 0x53BF (remove_final 0x533A district0)) = Raises))
       \<or> (\<not> startsWith message cmd_set_location \<and> message \<noteq> cmd_list_locations
          \<and> \<not> startsWith message cmd_city_detail \<and> startsWith message cmd_province
          \<and> (\<exists>arg. match_argument cmd_province message = Some arg
                 \<and> provinces_get (trim arg) = OtherInherited))"
proof (cases "startsWith message cmd_set_location")
  case True
  then have "(\<exists>e. fst (handleMessage rt env_LOCATION locations message uid w) = Inl e)
      \<longleftrightarrow> (\<exists>e. fst (handleSetLocation rt locations message uid w) = Inl e)"
    by (cases "fst (handleSetLocation rt locations message uid w)")
       (simp_all add: handleMessage_def Let_def)
  with True show ?thesis by (simp add: handleSetLocation_throws)
next
  case nset: False
  show ?thesis
  proof (cases "message \<noteq> cmd_list_locations
          \<and> \<not> startsWith message cmd_city_detail \<and> startsWith message cmd_province")
    case True
    with nset have h: "handleMessage rt env_LOCATION locations message uid w
        = (case match_argument cmd_province message of
             Some arg \<Rightarrow>
               (case handleProvinceDetail locations (trim arg) of
                  Inl e \<Rightarrow> (Inl e, w)
                | Inr c \<Rightarrow> (Inr \<lparr>content = c, isHtml = True\<rparr>, w))
           | None \<Rightarrow>
               (Inr \<lparr>content = formatCommandResponse title_format_error ProvinceFormat WarningCard,
                     isHtml = True\<rparr>, w))"
      by (simp add: handleMessage_def)
    show ?thesis
    proof (cases "match_argument cmd_province message")
      case None
      with True nset h show ?thesis by simp
    next
      case (Some arg)
      with True nset h handleProvinceDetail_throws [of locations "trim arg"] show ?thesis
        by (cases "handleProvinceDetail locations (trim arg)") auto
    qed
  next
    case False
    then consider
        (b) "message = cmd_list_locations"
      | (c) "message \<noteq> cmd_list_locations" "startsWith message cmd_city_detail"
      | (d) "message \<noteq> cmd_list_locations"
            "\<not> startsWith message cmd_city_detail" "\<not> startsWith message cmd_province"
      by blast
    then have "\<exists>r. fst (handleMessage rt env_LOCATION locations message uid w) = Inr r"
    proof cases
      case b
      with nset show ?thesis by (simp add: handleMessage_def)
    next
      case c
      with nset show ?thesis
        by (cases "match_argument cmd_city_detail message") (simp_all add: handleMessage_def)
    next
      case d
      with nset show ?thesis by (simp add: handleMessage_def Let_def)
    qed
    with False nset show ?thesis by auto
  qed
qed

text \<open>
  An argument that passes the pattern of the command but is no valid time is not answered
  with an error card either: \<^verbatim>\<open>updatePushTime\<close> is called without \<open>await\<close>, its
  promise is truthy, and the handler reports the time \<open>25:00\<close> as set, although no push
  time is written (the call only creates the preference file when it is missing).
\<close>

lemma match_time_argument_2500:
  "match_time_argument cmd_set_push_time (cmd_set_push_time @ 0xFF1A # js ''25:00'')
     = Some (js ''25:00'')"
  by (simp add: match_time_argument_def startsWith_def after_colon_def is_space_def
      is_digit_def js_def)

lemma handleMessage_invalid_time_reported_set:
  "handleMessage rt env_LOCATION locations (cmd_set_push_time @ 0xFF1A # js ''25:00'') uid w
     = (Inr \<lparr>content = \<lparr>card_title = title_push_time_set, card_text = PushTimeSet (js ''25:00''),
                           card_type = SuccessCard\<rparr>,
             isHtml = True\<rparr>,
        ensured w)"
proof -
  let ?m = "cmd_set_push_time @ 0xFF1A # js ''25:00''"
  have a: "\<not> startsWith ?m cmd_set_location" "?m \<noteq> cmd_list_locations"
    "\<not> startsWith ?m cmd_city_detail" "\<not> startsWith ?m cmd_province"
    "?m \<noteq> cmd_current_location" "startsWith ?m cmd_set_push_time"
    by (simp_all add: startsWith_def cmd_province_def cmd_set_location_def cmd_list_locations_def
        cmd_city_detail_def cmd_current_location_def cmd_set_push_time_def js_def)
  have v: "\<not> timePattern (formattedTime (js ''25:00''))"
    by (simp add: timePattern_def formattedTime_def singleDigitMatch_def js_def)
  have s: "snd (updatePushTime uid (js ''25:00'') w) = ensured w"
    using v by (simp add: updatePushTime_def updatePushTime_fn_def Let_def ensured_def)
  from a s show ?thesis
    by (simp add: handleMessage_def handleSetPushTime_def match_time_argument_2500 Let_def
        formatCommandResponse_def)
qed

end
